theory Spec2Isabelle
  imports Complex_Main
begin

section \<open>Go values used by the plugin\<close>

subsection \<open>Errors\<close>

text \<open>A Go \<open>error\<close> is its message. Every \<open>(value, error)\<close> result of the source is a sum
  \<open>error + value\<close> with \<open>Inl\<close> for the non-nil error.\<close>

datatype error = Error string

fun Errorf :: "string \<Rightarrow> error \<Rightarrow> error" where
  "Errorf msg (Error inner) = Error (msg @ '': '' @ inner)"

subsection \<open>float64\<close>

text \<open>A \<open>float64\<close> is a real number, one of the two infinities or NaN. Rounding and the sign
  of zero are not modelled; division by zero and the propagation of NaN are, as IEEE 754 and
  package \<open>math\<close> define them.\<close>

datatype float64 = Fin real | PosInf | NegInf | NaN

fun f_neg :: "float64 \<Rightarrow> float64" where
  "f_neg (Fin a) = Fin (- a)"
| "f_neg PosInf = NegInf"
| "f_neg NegInf = PosInf"
| "f_neg NaN = NaN"

fun f_add :: "float64 \<Rightarrow> float64 \<Rightarrow> float64" where
  "f_add NaN y = NaN"
| "f_add x NaN = NaN"
| "f_add (Fin a) (Fin b) = Fin (a + b)"
| "f_add PosInf NegInf = NaN"
| "f_add NegInf PosInf = NaN"
| "f_add PosInf y = PosInf"
| "f_add NegInf y = NegInf"
| "f_add x PosInf = PosInf"
| "f_add x NegInf = NegInf"

definition f_sub :: "float64 \<Rightarrow> float64 \<Rightarrow> float64" where
  "f_sub x y = f_add x (f_neg y)"

fun f_mul :: "float64 \<Rightarrow> float64 \<Rightarrow> float64" where
  "f_mul NaN y = NaN"
| "f_mul x NaN = NaN"
| "f_mul (Fin a) (Fin b) = Fin (a * b)"
| "f_mul (Fin a) y = (if a = 0 then NaN else if (0 < a) = (y = PosInf) then PosInf else NegInf)"
| "f_mul x (Fin b) = (if b = 0 then NaN else if (0 < b) = (x = PosInf) then PosInf else NegInf)"
| "f_mul x y = (if x = y then PosInf else NegInf)"

fun f_div :: "float64 \<Rightarrow> float64 \<Rightarrow> float64" where
  "f_div NaN y = NaN"
| "f_div x NaN = NaN"
| "f_div (Fin a) (Fin b) =
     (if b = 0 then (if a = 0 then NaN else if 0 < a then PosInf else NegInf)
      else Fin (a / b))"
| "f_div (Fin a) y = Fin 0"
| "f_div x (Fin b) = (if 0 \<le> b then x else f_neg x)"
| "f_div x y = NaN"

text \<open>The comparisons \<open><=\<close> and \<open><\<close>: false as soon as one side is NaN.\<close>

fun f_le :: "float64 \<Rightarrow> float64 \<Rightarrow> bool" where
  "f_le NaN y = False"
| "f_le x NaN = False"
| "f_le (Fin a) (Fin b) = (a \<le> b)"
| "f_le NegInf y = True"
| "f_le x PosInf = True"
| "f_le x y = False"

fun f_lt :: "float64 \<Rightarrow> float64 \<Rightarrow> bool" where
  "f_lt NaN y = False"
| "f_lt x NaN = False"
| "f_lt (Fin a) (Fin b) = (a < b)"
| "f_lt PosInf y = False"
| "f_lt x NegInf = False"
| "f_lt x y = True"

definition f_ge :: "float64 \<Rightarrow> float64 \<Rightarrow> bool" where
  "f_ge x y = f_le y x"

text \<open>\<open>math.Min\<close>: \<open>Min(x, -Inf) = Min(-Inf, x) = -Inf\<close>, then \<open>Min(x, NaN) = Min(NaN, x) = NaN\<close>.\<close>

definition math_Min :: "float64 \<Rightarrow> float64 \<Rightarrow> float64" where
  "math_Min x y =
     (if x = NegInf \<or> y = NegInf then NegInf
      else if x = NaN \<or> y = NaN then NaN
      else (case x of
              Fin a \<Rightarrow> (case y of Fin b \<Rightarrow> Fin (min a b) | _ \<Rightarrow> x)
            | _ \<Rightarrow> y))"

definition float64_of_int :: "int \<Rightarrow> float64" where
  "float64_of_int i = Fin (real_of_int i)"

subsection \<open>Machine integers\<close>

text \<open>\<open>int\<close>, \<open>int64\<close> and \<open>time.Duration\<close> are 64-bit signed: values are HOL integers and
  \<open>wrap64\<close> is written wherever the source's arithmetic can leave the range.\<close>

definition minInt64 :: int where "minInt64 = - (2 ^ 63)"
definition maxInt64 :: int where "maxInt64 = 2 ^ 63 - 1"

definition in_int64 :: "int \<Rightarrow> bool" where
  "in_int64 i = (minInt64 \<le> i \<and> i \<le> maxInt64)"

definition wrap64 :: "int \<Rightarrow> int" where
  "wrap64 i = (i + 2 ^ 63) mod 2 ^ 64 - 2 ^ 63"

definition trunc :: "real \<Rightarrow> int" where
  "trunc r = (if 0 \<le> r then \<lfloor>r\<rfloor> else \<lceil>r\<rceil>)"

text \<open>The conversion \<open>int64(f)\<close> of a float: truncation towards zero; where the value does not
  fit the Go specification leaves the result to the implementation, and the model takes the
  amd64 result, the smallest \<open>int64\<close>.\<close>

definition int64_of_float :: "float64 \<Rightarrow> int" where
  "int64_of_float f =
     (case f of
        Fin r \<Rightarrow> (if in_int64 (trunc r) then trunc r else minInt64)
      | _ \<Rightarrow> minInt64)"

subsection \<open>Text that denotes numbers\<close>

text \<open>The store keeps text. The model keeps what a text denotes: \<open>Dec i\<close> is the decimal text of
  the integer \<open>i\<close>, \<open>Flt f\<close> the text of a float that is not written as a plain integer
  (\<open>19.5\<close>, \<open>1e+21\<close>, \<open>NaN\<close>, \<open>+Inf\<close>), \<open>Raw s\<close> any text that no numeric parser accepts.
  \<open>Sprintf_v\<close> is \<open>fmt.Sprintf("%v", value)\<close> on the values the plugin stores, and
  \<open>ParseFloat\<close>, \<open>ParseInt\<close> are \<open>strconv.ParseFloat(s, 64)\<close> and
  \<open>strconv.ParseInt(s, 10, 64)\<close>; \<open>%v\<close> prints the shortest text that parses back to the
  same float, an integral float below \<open>1e21\<close> without point or exponent.\<close>

datatype bulk = Dec int | Flt float64 | Raw string

datatype gvalue = GFloat float64 | GInt int

definition Sprintf_v :: "gvalue \<Rightarrow> bulk" where
  "Sprintf_v v =
     (case v of
        GInt i \<Rightarrow> Dec i
      | GFloat f \<Rightarrow>
          (case f of
             Fin r \<Rightarrow> (if r = real_of_int \<lfloor>r\<rfloor> \<and> \<bar>r\<bar> < 10 ^ 21 then Dec \<lfloor>r\<rfloor> else Flt f)
           | _ \<Rightarrow> Flt f))"

definition ParseFloat :: "bulk \<Rightarrow> error + float64" where
  "ParseFloat s =
     (case s of
        Dec i \<Rightarrow> (if \<bar>i\<bar> < 2 ^ 1024 then Inr (Fin (real_of_int i))
                  else Inl (Error ''strconv.ParseFloat: value out of range''))
      | Flt f \<Rightarrow> Inr f
      | Raw _ \<Rightarrow> Inl (Error ''strconv.ParseFloat: invalid syntax''))"

definition ParseInt :: "bulk \<Rightarrow> error + int" where
  "ParseInt s =
     (case s of
        Dec i \<Rightarrow> (if in_int64 i then Inr i
                  else Inl (Error ''strconv.ParseInt: value out of range''))
      | _ \<Rightarrow> Inl (Error ''strconv.ParseInt: invalid syntax''))"

subsection \<open>Printing integers\<close>

definition digit_char :: "nat \<Rightarrow> char" where
  "digit_char d = char_of (48 + d)"

fun utoa :: "nat \<Rightarrow> string" where
  "utoa n = (if n < 10 then [digit_char n] else utoa (n div 10) @ [digit_char (n mod 10)])"

declare utoa.simps [simp del]

text \<open>\<open>strconv.Itoa\<close> and \<open>strconv.FormatInt(i, 10)\<close>.\<close>

definition Itoa :: "int \<Rightarrow> string" where
  "Itoa i = (if i < 0 then CHR ''-'' # utoa (nat (- i)) else utoa (nat i))"

text \<open>\<open>%02d\<close> and the layout elements \<open>2006\<close>, \<open>01\<close>, \<open>02\<close>: zero padding to a width.\<close>

definition pad_left :: "nat \<Rightarrow> string \<Rightarrow> string" where
  "pad_left n s = replicate (n - length s) CHR ''0'' @ s"

definition Itoa_pad :: "nat \<Rightarrow> int \<Rightarrow> string" where
  "Itoa_pad n i =
     (if i < 0 then CHR ''-'' # pad_left (n - 1) (utoa (nat (- i))) else pad_left n (utoa (nat i)))"

subsection \<open>Time\<close>

text \<open>A \<open>time.Time\<close> is its instant in nanoseconds since the Unix epoch (the monotonic reading is
  not modelled), a \<open>time.Duration\<close> a count of nanoseconds. \<open>Time.Sub\<close> saturates at the
  largest and smallest duration.\<close>

type_synonym Time = int
type_synonym Duration = int

definition Nanosecond :: Duration where "Nanosecond = 1"
definition Microsecond :: Duration where "Microsecond = 1000"
definition Millisecond :: Duration where "Millisecond = 1000000"
definition Second :: Duration where "Second = 1000000000"
definition Minute :: Duration where "Minute = 60000000000"
definition Hour :: Duration where "Hour = 3600000000000"

definition time_Sub :: "Time \<Rightarrow> Time \<Rightarrow> Duration" where
  "time_Sub t u =
     (if t - u > maxInt64 then maxInt64 else if t - u < minInt64 then minInt64 else t - u)"

definition Seconds :: "Duration \<Rightarrow> float64" where
  "Seconds d = Fin (real_of_int d / 1000000000)"

definition time_Add :: "Time \<Rightarrow> Duration \<Rightarrow> Time" where
  "time_Add t d = t + d"

definition Unix :: "Time \<Rightarrow> int" where
  "Unix t = t div 1000000000"

subsection \<open>Duration literals\<close>

text \<open>\<open>time.ParseDuration\<close> (the library's \<open>uint64\<close> values are integers here): an optional sign, then one or more segments, each a decimal
  number with an optional fraction and a unit. The integer arithmetic and every overflow check
  are those of the library; the fraction of a segment, which the library scales in
  \<open>float64\<close>, is scaled exactly and truncated.\<close>

definition is_digit :: "char \<Rightarrow> bool" where
  "is_digit c = (48 \<le> (of_char c :: int) \<and> (of_char c :: int) \<le> 57)"

definition digit_val :: "char \<Rightarrow> int" where
  "digit_val c = of_char c - 48"

fun leadingInt :: "int \<Rightarrow> string \<Rightarrow> (int \<times> string) option" where
  "leadingInt x [] = Some (x, [])"
| "leadingInt x (c # s) =
     (if \<not> is_digit c then Some (x, c # s)
      else if x > 2 ^ 63 div 10 then None
      else (let y = x * 10 + digit_val c in if y > 2 ^ 63 then None else leadingInt y s))"

fun leadingFraction :: "int \<Rightarrow> int \<Rightarrow> bool \<Rightarrow> string \<Rightarrow> int \<times> int \<times> string" where
  "leadingFraction x scale overflow [] = (x, scale, [])"
| "leadingFraction x scale overflow (c # s) =
     (if \<not> is_digit c then (x, scale, c # s)
      else if overflow then leadingFraction x scale True s
      else if x > (2 ^ 63 - 1) div 10 then leadingFraction x scale True s
      else (let y = x * 10 + digit_val c in
            if y > 2 ^ 63 then leadingFraction x scale True s
            else leadingFraction y (scale * 10) False s))"

definition unitMap :: "string \<Rightarrow> int option" where
  "unitMap u =
     (if u = ''ns'' then Some 1
      else if u = ''us'' then Some 1000
      else if u = [CHR 0xC2, CHR 0xB5, CHR ''s''] then Some 1000
      else if u = [CHR 0xCE, CHR 0xBC, CHR ''s''] then Some 1000
      else if u = ''ms'' then Some 1000000
      else if u = ''s'' then Some 1000000000
      else if u = ''m'' then Some 60000000000
      else if u = ''h'' then Some 3600000000000
      else None)"

definition in_number :: "char \<Rightarrow> bool" where
  "in_number c = (c = CHR ''.'' \<or> is_digit c)"

definition invalid_duration :: error where
  "invalid_duration = Error ''time: invalid duration''"

text \<open>One turn of the library's loop: a number and its unit, scaled to nanoseconds, and the
  rest of the text.\<close>

definition parse_segment :: "string \<Rightarrow> error + (int \<times> string)" where
  "parse_segment s =
     (case s of
        [] \<Rightarrow> Inl invalid_duration
      | c # _ \<Rightarrow>
          if \<not> in_number c then Inl invalid_duration
          else
            (case leadingInt 0 s of
               None \<Rightarrow> Inl invalid_duration
             | Some (v, s1) \<Rightarrow>
                 let pre = (length s \<noteq> length s1);
                     (f, scale, s2, post) =
                        (case s1 of
                           [] \<Rightarrow> (0, 1, s1, False)
                         | c1 # r1 \<Rightarrow>
                             if c1 = CHR ''.''
                             then (let (f, scale, r2) = leadingFraction 0 1 False r1
                                   in (f, scale, r2, length r1 \<noteq> length r2))
                             else (0, 1, s1, False))
                 in if \<not> pre \<and> \<not> post then Inl invalid_duration
                    else
                      let u = takeWhile (\<lambda>c. \<not> in_number c) s2;
                          s3 = dropWhile (\<lambda>c. \<not> in_number c) s2
                      in if u = [] then Inl (Error ''time: missing unit in duration'')
                         else
                           (case unitMap u of
                              None \<Rightarrow> Inl (Error ''time: unknown unit in duration'')
                            | Some unit \<Rightarrow>
                                if v > 2 ^ 63 div unit then Inl invalid_duration
                                else
                                  let v1 = v * unit;
                                      v2 = (if f > 0 then v1 + (f * unit) div scale else v1)
                                  in if f > 0 \<and> v2 > 2 ^ 63 then Inl invalid_duration
                                     else Inr (v2, s3))))"

lemma leadingInt_length: "leadingInt x s = Some (v, r) \<Longrightarrow> length r \<le> length s"
  by (induction x s rule: leadingInt.induct) (auto simp: Let_def split: if_splits)

lemma leadingFraction_length:
  "leadingFraction x sc ov s = (f, sc', r) \<Longrightarrow> length r \<le> length s"
  by (induction x sc ov s rule: leadingFraction.induct) (auto simp: Let_def split: if_splits)

lemma dropWhile_shorter: "takeWhile P s \<noteq> [] \<Longrightarrow> length (dropWhile P s) < length s"
  by (cases s) (auto simp: less_Suc_eq_le length_dropWhile_le split: if_splits)

lemma dropWhile_less_Suc: "length xs \<le> n \<Longrightarrow> length (dropWhile P xs) < Suc n"
  using length_dropWhile_le [of P xs] by simp

lemma parse_segment_shorter:
  assumes "parse_segment s = Inr (v, r)"
  shows "length r < length s"
  using assms
  by (auto simp: parse_segment_def Let_def simp del: leadingInt.simps leadingFraction.simps
      split: list.splits option.splits if_splits prod.splits
      dest!: leadingInt_length leadingFraction_length
             dropWhile_shorter [of "\<lambda>c. \<not> in_number c"]
      intro: dropWhile_less_Suc)

text \<open>The library's loop over the segments; the running sum is a \<open>uint64\<close>.\<close>

function parse_segments :: "string \<Rightarrow> int \<Rightarrow> error + int" where
  "parse_segments s d =
     (if s = [] then Inr d
      else (case parse_segment s of
              Inl e \<Rightarrow> Inl e
            | Inr (v, rest) \<Rightarrow>
                (let d' = (d + v) mod 2 ^ 64
                 in if d' > 2 ^ 63 then Inl invalid_duration else parse_segments rest d')))"
  by pat_completeness auto
termination
  by (relation "measure (\<lambda>(s, d). length s)") (auto dest: parse_segment_shorter)

declare parse_segments.simps [simp del]

definition ParseDuration :: "string \<Rightarrow> error + Duration" where
  "ParseDuration s =
     (let neg = (s \<noteq> [] \<and> hd s = CHR ''-'');
          s1 = (if s \<noteq> [] \<and> (hd s = CHR ''-'' \<or> hd s = CHR ''+'') then tl s else s)
      in if s1 = ''0'' then Inr 0
         else if s1 = [] then Inl invalid_duration
         else (case parse_segments s1 0 of
                 Inl e \<Rightarrow> Inl e
               | Inr d \<Rightarrow>
                   if neg then Inr (- d)
                   else if d > 2 ^ 63 - 1 then Inl invalid_duration
                   else Inr d))"

section \<open>Configuration\<close>

text \<open>The structs of the configuration file. Field names are the source's, prefixed by the
  struct where two structs share a name.\<close>

record RedisConfig =
  Address :: string
  Password :: string
  DB :: int

record RateLimitConfig =
  rl_Enabled :: bool
  rl_Rate :: int
  rl_Burst :: int
  rl_Period :: string
  rl_ResponseReachedLimitCode :: int
  rl_ResponseReachedLimitBody :: string

record QuotaSettings =
  qs_Enabled :: bool
  qs_Limit :: int
  qs_Period :: string
  qs_ResponseReachedLimitCode :: int
  qs_ResponseReachedLimitBody :: string

record IdentifierConfig =
  ic_Type :: string
  ic_Name :: string
  ic_Value :: string
  ic_RateLimit :: RateLimitConfig
  ic_Quota :: QuotaSettings

record Config =
  Persistence_Redis :: RedisConfig
  Identifiers :: "IdentifierConfig list"

definition ParseRateLimitPeriod :: "RateLimitConfig \<Rightarrow> error + Duration" where
  "ParseRateLimitPeriod rlc =
     (if rl_Period rlc = [] then Inr Minute else ParseDuration (rl_Period rlc))"

definition ParseQuotaPeriod :: "QuotaSettings \<Rightarrow> error + Duration" where
  "ParseQuotaPeriod qs =
     (if qs_Period qs = ''Daily'' then Inr (24 * Hour)
      else if qs_Period qs = ''Weekly'' then Inr (7 * 24 * Hour)
      else if qs_Period qs = ''Monthly'' then Inr (30 * 24 * Hour)
      else Inl (Error (''unsupported quota period: '' @ qs_Period qs)))"

text \<open>\<open>IdentifierConfig.Validate\<close>: \<open>Inr ()\<close> is the nil error.\<close>

definition Validate :: "IdentifierConfig \<Rightarrow> error + unit" where
  "Validate ic =
     (if ic_Type ic = [] then Inl (Error ''identifier type is required'')
      else if ic_Type ic = ''Header'' \<and> ic_Name ic = []
      then Inl (Error ''header name is required for header-based identification'')
      else if \<not> rl_Enabled (ic_RateLimit ic) \<and> \<not> qs_Enabled (ic_Quota ic)
      then Inl (Error ''at least one feature (rate limit or quota) must be enabled'')
      else if rl_Enabled (ic_RateLimit ic) \<and> rl_Rate (ic_RateLimit ic) \<le> 0
      then Inl (Error ''rate limit rate must be positive when rate limiting is enabled'')
      else if rl_Enabled (ic_RateLimit ic) \<and> rl_Burst (ic_RateLimit ic) \<le> 0
      then Inl (Error ''rate limit burst must be positive when rate limiting is enabled'')
      else
        (case (if rl_Enabled (ic_RateLimit ic)
               then ParseRateLimitPeriod (ic_RateLimit ic) else Inr 0) of
           Inl err \<Rightarrow> Inl (Errorf ''invalid rate limit period'' err)
         | Inr _ \<Rightarrow>
             if qs_Enabled (ic_Quota ic) \<and> qs_Limit (ic_Quota ic) \<le> 0
             then Inl (Error ''quota limit must be positive when quota is enabled'')
             else
               (case (if qs_Enabled (ic_Quota ic)
                      then ParseQuotaPeriod (ic_Quota ic) else Inr 0) of
                  Inl err \<Rightarrow> Inl (Errorf ''invalid quota period'' err)
                | Inr _ \<Rightarrow> Inr ())))"

section \<open>The world outside the plugin\<close>

text \<open>The plugin talks to a Redis server through the \<open>RedisClient\<close> interface, reads the
  clock, writes the HTTP response and calls the next handler. The world records all of it:
  the keys of the store and their expiry in seconds, the answers the store will give (the
  \<open>n\<close>-th command sent fails when \<open>fault n\<close> holds: an I/O error or an error reply, and the
  command is then not applied), the readings \<open>time.Now()\<close> will return one after the other,
  the calendar of the server's time zone, and the trace of what the plugin did, oldest first.
  Keys do not expire while a request is served.\<close>

datatype command =
    PING
  | GET string
  | SET string bulk
  | SETEX string int bulk
  | INCRBY string int
  | EXPIRE string int

datatype event =
    Cmd command
  | SetHeader string string
  | WriteHeader int
  | Write string
  | Next_ServeHTTP

record civil =
  Year :: int
  Month :: int
  Day :: int
  Weekday :: int
  ISOYear :: int
  ISOWeek :: int

record world =
  kv :: "string \<rightharpoonup> bulk"
  ttl :: "string \<rightharpoonup> int"
  fault :: "nat \<Rightarrow> bool"
  sent :: nat
  clock :: "nat \<Rightarrow> Time"
  ticks :: nat
  calendar :: "Time \<Rightarrow> civil"
  time_Date :: "int \<Rightarrow> int \<Rightarrow> int \<Rightarrow> Time"
  trace :: "event list"

definition time_Now :: "world \<Rightarrow> Time \<times> world" where
  "time_Now w = (clock w (ticks w), w\<lparr>ticks := Suc (ticks w)\<rparr>)"

definition time_Until :: "Time \<Rightarrow> world \<Rightarrow> Duration \<times> world" where
  "time_Until t w = (case time_Now w of (now, w1) \<Rightarrow> (time_Sub t now, w1))"

definition emit :: "event \<Rightarrow> world \<Rightarrow> world" where
  "emit e w = w\<lparr>trace := trace w @ [e]\<rparr>"

subsection \<open>The Redis client\<close>

text \<open>\<open>writeCommand\<close> followed by \<open>readResponse\<close>: the command goes out and the store's
  next answer is consumed; the result tells whether it was a failure.\<close>

definition exchange :: "command \<Rightarrow> world \<Rightarrow> bool \<times> world" where
  "exchange c w = (fault w (sent w), w\<lparr>sent := Suc (sent w), trace := trace w @ [Cmd c]\<rparr>)"

definition redis_Ping :: "world \<Rightarrow> (error + unit) \<times> world" where
  "redis_Ping w =
     (case exchange PING w of
        (failed, w1) \<Rightarrow> if failed then (Inl (Error ''redis error''), w1) else (Inr (), w1))"

definition redis_Get :: "string \<Rightarrow> world \<Rightarrow> (error + bulk) \<times> world" where
  "redis_Get key w =
     (case exchange (GET key) w of
        (failed, w1) \<Rightarrow>
          if failed then (Inl (Error ''redis error''), w1)
          else (case kv w1 key of
                  None \<Rightarrow> (Inl (Error ''key not found''), w1)
                | Some resp \<Rightarrow> (Inr resp, w1)))"

definition redis_Set :: "string \<Rightarrow> gvalue \<Rightarrow> Duration \<Rightarrow> world \<Rightarrow> (error + unit) \<times> world" where
  "redis_Set key val expiration w =
     (let valueStr = Sprintf_v val;
          seconds = int64_of_float (Seconds expiration)
      in case exchange (if expiration > 0 then SETEX key seconds valueStr
                        else SET key valueStr) w of
           (failed, w1) \<Rightarrow>
             if failed then (Inl (Error ''redis error''), w1)
             else (Inr (),
                   w1\<lparr>kv := (kv w1)(key \<mapsto> valueStr),
                      ttl := (if expiration > 0 then (ttl w1)(key \<mapsto> seconds)
                              else (ttl w1)(key := None))\<rparr>))"

definition redis_IncrBy :: "string \<Rightarrow> int \<Rightarrow> world \<Rightarrow> (error + int) \<times> world" where
  "redis_IncrBy key val w =
     (case exchange (INCRBY key val) w of
        (failed, w1) \<Rightarrow>
          if failed then (Inl (Error ''redis error''), w1)
          else (case kv w1 key of
                  None \<Rightarrow> (Inr val, w1\<lparr>kv := (kv w1)(key \<mapsto> Dec val)\<rparr>)
                | Some (Dec c) \<Rightarrow>
                    if in_int64 c \<and> in_int64 (c + val)
                    then (Inr (c + val), w1\<lparr>kv := (kv w1)(key \<mapsto> Dec (c + val))\<rparr>)
                    else (Inl (Error ''redis error: ERR value is not an integer or out of range''),
                          w1)
                | Some _ \<Rightarrow>
                    (Inl (Error ''redis error: ERR value is not an integer or out of range''),
                     w1)))"

definition redis_Expire :: "string \<Rightarrow> Duration \<Rightarrow> world \<Rightarrow> (error + unit) \<times> world" where
  "redis_Expire key expiration w =
     (let seconds = int64_of_float (Seconds expiration)
      in case exchange (EXPIRE key seconds) w of
           (failed, w1) \<Rightarrow>
             if failed then (Inl (Error ''redis error''), w1)
             else if kv w1 key = None
             then (Inl (Error ''expire failed: key may not exist''), w1)
             else (Inr (), w1\<lparr>ttl := (ttl w1)(key \<mapsto> seconds)\<rparr>))"

definition GetQuotaKey :: "string \<Rightarrow> string \<Rightarrow> string" where
  "GetQuotaKey identifier period = ''quota:'' @ identifier @ '':'' @ period"

definition GetRateLimitKey :: "string \<Rightarrow> string" where
  "GetRateLimitKey identifier = ''ratelimit:'' @ identifier"

text \<open>\<open>GetQuotaPeriodKey\<close>: the label of the current window, from the calendar reading of
  \<open>time.Now()\<close>: layout \<open>2006-01-02\<close>, \<open>%d-W%02d\<close> of the ISO week, layout \<open>2006-01\<close>.\<close>

definition format_date :: "civil \<Rightarrow> string" where
  "format_date c = Itoa_pad 4 (Year c) @ ''-'' @ Itoa_pad 2 (Month c) @ ''-'' @ Itoa_pad 2 (Day c)"

definition format_month :: "civil \<Rightarrow> string" where
  "format_month c = Itoa_pad 4 (Year c) @ ''-'' @ Itoa_pad 2 (Month c)"

definition format_week :: "civil \<Rightarrow> string" where
  "format_week c = Itoa (ISOYear c) @ ''-W'' @ Itoa_pad 2 (ISOWeek c)"

definition GetQuotaPeriodKey :: "string \<Rightarrow> world \<Rightarrow> string \<times> world" where
  "GetQuotaPeriodKey period w =
     (case time_Now w of
        (now, w1) \<Rightarrow>
          (if period = ''Daily'' then format_date (calendar w1 now)
           else if period = ''Weekly'' then format_week (calendar w1 now)
           else if period = ''Monthly'' then format_month (calendar w1 now)
           else format_date (calendar w1 now),
           w1))"

section \<open>The token bucket rate limiter\<close>

record TokenBucket =
  Tokens :: float64
  LastRefill :: Time
  Rate :: int
  Burst :: int
  RefillPeriod :: Duration

record RateLimitInfo =
  rli_Limit :: int
  rli_Burst :: int
  rli_Available :: int
  rli_ResetTime :: Time
  rli_RetryAfter :: Duration

text \<open>A \<open>RateLimiter\<close> is its configuration; its client is the world.\<close>

type_synonym RateLimiter = RateLimitConfig

definition createNewBucket :: "RateLimiter \<Rightarrow> world \<Rightarrow> (error + TokenBucket) \<times> world" where
  "createNewBucket rl w =
     (case ParseRateLimitPeriod rl of
        Inl err \<Rightarrow> (Inl (Errorf ''invalid period'' err), w)
      | Inr period \<Rightarrow>
          (case time_Now w of
             (now, w1) \<Rightarrow>
               (Inr \<lparr>Tokens = float64_of_int (rl_Burst rl), LastRefill = now,
                     Rate = rl_Rate rl, Burst = rl_Burst rl, RefillPeriod = period\<rparr>,
                w1)))"

definition getBucket :: "RateLimiter \<Rightarrow> string \<Rightarrow> world \<Rightarrow> (error + TokenBucket) \<times> world" where
  "getBucket rl key w =
     (case redis_Get (key @ '':tokens'') w of
        (Inl err, w1) \<Rightarrow> createNewBucket rl w1
      | (Inr bucketData, w1) \<Rightarrow>
          (case ParseFloat bucketData of
             Inl err \<Rightarrow> createNewBucket rl w1
           | Inr tokens \<Rightarrow>
               (case redis_Get (key @ '':last_refill'') w1 of
                  (Inl err, w2) \<Rightarrow> createNewBucket rl w2
                | (Inr lastRefillData, w2) \<Rightarrow>
                    (case ParseInt lastRefillData of
                       Inl err \<Rightarrow> createNewBucket rl w2
                     | Inr lastRefillUnix \<Rightarrow>
                         (case ParseRateLimitPeriod rl of
                            Inl err \<Rightarrow> (Inl (Errorf ''invalid period'' err), w2)
                          | Inr period \<Rightarrow>
                              (Inr \<lparr>Tokens = tokens, LastRefill = lastRefillUnix,
                                    Rate = rl_Rate rl, Burst = rl_Burst rl,
                                    RefillPeriod = period\<rparr>,
                               w2))))))"

definition refillBucket :: "TokenBucket \<Rightarrow> Time \<Rightarrow> TokenBucket" where
  "refillBucket bucket now =
     (let elapsed = time_Sub now (LastRefill bucket);
          tokensToAdd = f_div (f_mul (float64_of_int (Rate bucket)) (Seconds elapsed))
                              (Seconds (RefillPeriod bucket))
      in bucket\<lparr>Tokens := math_Min (f_add (Tokens bucket) tokensToAdd)
                                   (float64_of_int (Burst bucket)),
                LastRefill := now\<rparr>)"

definition saveBucket :: "string \<Rightarrow> TokenBucket \<Rightarrow> world \<Rightarrow> (error + unit) \<times> world" where
  "saveBucket key bucket w =
     (let expiration = wrap64 (RefillPeriod bucket * 2)
      in case redis_Set (key @ '':tokens'') (GFloat (Tokens bucket)) expiration w of
           (Inl err, w1) \<Rightarrow> (Inl (Errorf ''failed to save tokens'' err), w1)
         | (Inr _, w1) \<Rightarrow>
             (case redis_Set (key @ '':last_refill'') (GInt (LastRefill bucket)) expiration w1 of
                (Inl err, w2) \<Rightarrow> (Inl (Errorf ''failed to save last refill'' err), w2)
              | (Inr _, w2) \<Rightarrow> (Inr (), w2)))"

definition Allow :: "RateLimiter \<Rightarrow> string \<Rightarrow> world \<Rightarrow> (error + bool) \<times> world" where
  "Allow rl identifier w =
     (let key = GetRateLimitKey identifier
      in case getBucket rl key w of
           (Inl err, w1) \<Rightarrow> (Inl (Errorf ''failed to get bucket'' err), w1)
         | (Inr bucket0, w1) \<Rightarrow>
             (case time_Now w1 of
                (now, w2) \<Rightarrow>
                  (let bucket = refillBucket bucket0 now
                   in if f_ge (Tokens bucket) (Fin 1)
                      then (case saveBucket key (bucket\<lparr>Tokens := f_sub (Tokens bucket) (Fin 1)\<rparr>) w2 of
                              (Inl err, w3) \<Rightarrow> (Inl (Errorf ''failed to save bucket'' err), w3)
                            | (Inr _, w3) \<Rightarrow> (Inr True, w3))
                      else (Inr False, w2))))"

definition AllowN :: "RateLimiter \<Rightarrow> string \<Rightarrow> int \<Rightarrow> world \<Rightarrow> (error + bool) \<times> world" where
  "AllowN rl identifier n w =
     (if n \<le> 0 then (Inr True, w)
      else
        (let key = GetRateLimitKey identifier
         in case getBucket rl key w of
              (Inl err, w1) \<Rightarrow> (Inl (Errorf ''failed to get bucket'' err), w1)
            | (Inr bucket0, w1) \<Rightarrow>
                (case time_Now w1 of
                   (now, w2) \<Rightarrow>
                     (let bucket = refillBucket bucket0 now
                      in if f_ge (Tokens bucket) (float64_of_int n)
                         then (case saveBucket key
                                      (bucket\<lparr>Tokens := f_sub (Tokens bucket) (float64_of_int n)\<rparr>) w2 of
                                 (Inl err, w3) \<Rightarrow> (Inl (Errorf ''failed to save bucket'' err), w3)
                               | (Inr _, w3) \<Rightarrow> (Inr True, w3))
                         else (Inr False, w2)))))"

definition GetLimitInfo :: "RateLimiter \<Rightarrow> string \<Rightarrow> world \<Rightarrow> (error + RateLimitInfo) \<times> world" where
  "GetLimitInfo rl identifier w =
     (let key = GetRateLimitKey identifier
      in case getBucket rl key w of
           (Inl err, w1) \<Rightarrow> (Inl (Errorf ''failed to get bucket'' err), w1)
         | (Inr bucket0, w1) \<Rightarrow>
             (case time_Now w1 of
                (now, w2) \<Rightarrow>
                  (let bucket = refillBucket bucket0 now;
                       timeUntilReset =
                         (if f_lt (Tokens bucket) (float64_of_int (Burst bucket))
                          then int64_of_float
                                 (f_mul (f_div (Seconds (RefillPeriod bucket))
                                               (float64_of_int (Rate bucket)))
                                        (float64_of_int Second))
                          else 0)
                   in (Inr \<lparr>rli_Limit = Rate bucket, rli_Burst = Burst bucket,
                            rli_Available = int64_of_float (Tokens bucket),
                            rli_ResetTime = time_Add now timeUntilReset,
                            rli_RetryAfter = timeUntilReset\<rparr>,
                       w2))))"

section \<open>The quota manager\<close>

record QuotaInfo =
  qi_Limit :: int
  qi_Used :: int
  qi_Remaining :: int
  qi_Period :: string
  qi_ResetTime :: Time
  qi_ResetIn :: Duration

text \<open>A \<open>QuotaManager\<close> is its settings; its client is the world.\<close>

type_synonym QuotaManager = QuotaSettings

text \<open>The zero \<open>time.Time\<close>: January 1 of year 1, UTC.\<close>

definition zero_Time :: Time where
  "zero_Time = - 62135596800 * 1000000000"

text \<open>Go's \<open>%\<close> on integers truncates towards zero.\<close>

definition go_rem :: "int \<Rightarrow> int \<Rightarrow> int" where
  "go_rem a b = (if a < 0 then - ((- a) mod \<bar>b\<bar>) else a mod \<bar>b\<bar>)"

definition getNextResetTime :: "QuotaManager \<Rightarrow> world \<Rightarrow> Time \<times> world" where
  "getNextResetTime qm w =
     (case time_Now w of
        (now, w1) \<Rightarrow>
          (let c = calendar w1 now
           in if qs_Period qm = ''Daily'' then time_Date w1 (Year c) (Month c) (Day c + 1)
              else if qs_Period qm = ''Weekly''
              then (let d = go_rem (7 - Weekday c) 7;
                        daysUntilSunday = (if d = 0 then 7 else d)
                    in time_Date w1 (Year c) (Month c) (Day c + daysUntilSunday))
              else if qs_Period qm = ''Monthly'' then time_Date w1 (Year c) (Month c + 1) 1
              else time_Date w1 (Year c) (Month c) (Day c + 1),
           w1))"

definition GetQuotaInfo :: "QuotaManager \<Rightarrow> string \<Rightarrow> world \<Rightarrow> (error + QuotaInfo) \<times> world" where
  "GetQuotaInfo qm identifier w =
     (if \<not> qs_Enabled qm
      then (Inr \<lparr>qi_Limit = 0, qi_Used = 0, qi_Remaining = 0, qi_Period = ''Disabled'',
                 qi_ResetTime = zero_Time, qi_ResetIn = 0\<rparr>, w)
      else
        (case GetQuotaPeriodKey (qs_Period qm) w of
           (periodKey, w1) \<Rightarrow>
             (case redis_Get (GetQuotaKey identifier periodKey) w1 of
                (usageStr, w2) \<Rightarrow>
                  (let used = (case usageStr of
                                 Inl err \<Rightarrow> 0
                               | Inr s \<Rightarrow> (case ParseInt s of Inl parseErr \<Rightarrow> 0
                                                            | Inr parsedUsage \<Rightarrow> parsedUsage));
                       remaining0 = wrap64 (qs_Limit qm - used);
                       remaining = (if remaining0 < 0 then 0 else remaining0)
                   in case getNextResetTime qm w2 of
                        (resetTime, w3) \<Rightarrow>
                          (case time_Until resetTime w3 of
                             (resetIn, w4) \<Rightarrow>
                               (Inr \<lparr>qi_Limit = qs_Limit qm, qi_Used = used,
                                     qi_Remaining = remaining, qi_Period = qs_Period qm,
                                     qi_ResetTime = resetTime, qi_ResetIn = resetIn\<rparr>,
                                w4))))))"

text \<open>\<open>CheckQuota\<close> returns \<open>(bool, *QuotaInfo, error)\<close>: the pointer is an option.\<close>

definition CheckQuota ::
  "QuotaManager \<Rightarrow> string \<Rightarrow> world \<Rightarrow> (error + bool \<times> QuotaInfo option) \<times> world" where
  "CheckQuota qm identifier w =
     (if \<not> qs_Enabled qm then (Inr (True, None), w)
      else
        (case GetQuotaInfo qm identifier w of
           (Inl err, w1) \<Rightarrow> (Inl (Errorf ''failed to get quota info'' err), w1)
         | (Inr info, w1) \<Rightarrow>
             if qi_Used info \<ge> qi_Limit info then (Inr (False, Some info), w1)
             else (Inr (True, Some info), w1)))"

definition ConsumeQuota ::
  "QuotaManager \<Rightarrow> string \<Rightarrow> int \<Rightarrow> world \<Rightarrow> (error + QuotaInfo option) \<times> world" where
  "ConsumeQuota qm identifier amount0 w =
     (if \<not> qs_Enabled qm then (Inr None, w)
      else
        (let amount = (if amount0 \<le> 0 then 1 else amount0)
         in case GetQuotaPeriodKey (qs_Period qm) w of
              (periodKey, w1) \<Rightarrow>
                (let key = GetQuotaKey identifier periodKey
                 in case redis_IncrBy key amount w1 of
                      (Inl err, w2) \<Rightarrow> (Inl (Errorf ''failed to increment quota'' err), w2)
                    | (Inr newUsage, w2) \<Rightarrow>
                        (case (if newUsage = amount
                               then (case getNextResetTime qm w2 of
                                       (resetTime, w3) \<Rightarrow>
                                         (case time_Until resetTime w3 of
                                            (timeUntilReset, w4) \<Rightarrow>
                                              redis_Expire key timeUntilReset w4))
                               else (Inr (), w2)) of
                           (Inl err, w5) \<Rightarrow>
                             (Inl (Errorf ''failed to set quota expiration'' err), w5)
                         | (Inr _, w5) \<Rightarrow>
                             (case GetQuotaInfo qm identifier w5 of
                                (Inl err, w6) \<Rightarrow>
                                  (Inl (Errorf ''failed to get updated quota info'' err), w6)
                              | (Inr info, w6) \<Rightarrow> (Inr (Some info), w6))))))"

definition IsQuotaEnabled :: "QuotaManager \<Rightarrow> bool" where
  "IsQuotaEnabled qm = qs_Enabled qm"

section \<open>The plugin\<close>

subsection \<open>Requests\<close>

text \<open>What the plugin reads of an \<open>http.Request\<close>: the header map (keyed by canonical names,
  each with its values in order), the remote address, the parsed query of the URL and the
  parsed cookies.\<close>

record Request =
  Header :: "string \<rightharpoonup> string list"
  RemoteAddr :: string
  URL_Query :: "string \<rightharpoonup> string list"
  Cookies :: "string \<rightharpoonup> string"

definition to_upper :: "char \<Rightarrow> char" where
  "to_upper c = (let n = (of_char c :: nat) in if 97 \<le> n \<and> n \<le> 122 then char_of (n - 32) else c)"

definition to_lower :: "char \<Rightarrow> char" where
  "to_lower c = (let n = (of_char c :: nat) in if 65 \<le> n \<and> n \<le> 90 then char_of (n + 32) else c)"

definition validHeaderFieldByte :: "char \<Rightarrow> bool" where
  "validHeaderFieldByte c =
     (let n = (of_char c :: nat)
      in n = 33 \<or> (35 \<le> n \<and> n \<le> 39) \<or> n = 42 \<or> n = 43 \<or> n = 45 \<or> n = 46 \<or>
         (48 \<le> n \<and> n \<le> 57) \<or> (65 \<le> n \<and> n \<le> 90) \<or> (94 \<le> n \<and> n \<le> 122) \<or>
         n = 124 \<or> n = 126)"

fun canonical :: "bool \<Rightarrow> string \<Rightarrow> string" where
  "canonical upper [] = []"
| "canonical upper (c # cs) =
     (if upper then to_upper c else to_lower c) # canonical (c = CHR ''-'') cs"

definition CanonicalMIMEHeaderKey :: "string \<Rightarrow> string" where
  "CanonicalMIMEHeaderKey s = (if list_all validHeaderFieldByte s then canonical True s else s)"

definition Header_Get :: "Request \<Rightarrow> string \<Rightarrow> string" where
  "Header_Get req key =
     (case Header req (CanonicalMIMEHeaderKey key) of
        None \<Rightarrow> []
      | Some [] \<Rightarrow> []
      | Some (v # _) \<Rightarrow> v)"

definition Query_Get :: "Request \<Rightarrow> string \<Rightarrow> string" where
  "Query_Get req key =
     (case URL_Query req key of
        None \<Rightarrow> []
      | Some [] \<Rightarrow> []
      | Some (v # _) \<Rightarrow> v)"

text \<open>\<open>req.Cookie(name)\<close>: \<open>None\<close> is \<open>ErrNoCookie\<close>.\<close>

definition Cookie :: "Request \<Rightarrow> string \<Rightarrow> string option" where
  "Cookie req name = (if name = [] then None else Cookies req name)"

text \<open>\<open>strings.TrimSpace\<close> on ASCII white space, the first field of \<open>strings.Split(s, ",")\<close>,
  and the cut at \<open>strings.LastIndex(s, ":")\<close>.\<close>

definition isSpace :: "char \<Rightarrow> bool" where
  "isSpace c = (let n = (of_char c :: nat) in (9 \<le> n \<and> n \<le> 13) \<or> n = 32)"

definition TrimSpace :: "string \<Rightarrow> string" where
  "TrimSpace s = rev (dropWhile isSpace (rev (dropWhile isSpace s)))"

definition first_field :: "string \<Rightarrow> string" where
  "first_field s = takeWhile (\<lambda>c. c \<noteq> CHR '','') s"

definition cut_last_colon :: "string \<Rightarrow> string" where
  "cut_last_colon ip =
     (if CHR '':'' \<in> set ip then rev (tl (dropWhile (\<lambda>c. c \<noteq> CHR '':'') (rev ip))) else ip)"

subsection \<open>Identifier extraction\<close>

definition extractIdentifier :: "Request \<Rightarrow> IdentifierConfig \<Rightarrow> string" where
  "extractIdentifier req config =
     (if ic_Type config = ''Header''
      then (let val = Header_Get req (ic_Name config)
            in if val \<noteq> []
               then (if val = ic_Value config then val else [])
               else if ic_Value config = ''sk-unknown'' \<or> ic_Value config = ''anonymous''
                       \<or> ic_Value config = ''guest''
               then ic_Value config
               else [])
      else if ic_Type config = ''IP''
      then (let ip0 = RemoteAddr req;
                forwarded = Header_Get req ''X-Forwarded-For'';
                ip1 = (if forwarded \<noteq> [] then TrimSpace (first_field forwarded) else ip0);
                realIP = Header_Get req ''X-Real-IP'';
                ip2 = (if realIP \<noteq> [] then realIP else ip1)
            in cut_last_colon ip2)
      else if ic_Type config = ''Query''
      then (let val = Query_Get req (ic_Name config)
            in if val \<noteq> [] then val else ic_Value config)
      else if ic_Type config = ''Cookie''
      then (case Cookie req (ic_Name config) of
              Some val \<Rightarrow> val
            | None \<Rightarrow> ic_Value config)
      else ic_Value config)"

subsection \<open>Managers and responses\<close>

record IdentifierManager =
  config :: IdentifierConfig
  rateLimiter :: "RateLimiter option"
  quotaManager :: QuotaManager

record QuotaResponse =
  qr_Allowed :: bool
  qr_RateLimit :: "RateLimitInfo option"
  qr_Quota :: "QuotaInfo option"
  qr_Identifier :: string
  qr_IdentifierType :: string
  qr_Reason :: string
  qr_ResponseCode :: int
  qr_ResponseBody :: string

text \<open>The plugin instance. Its \<open>managers\<close> are a Go map; the client and the next handler are
  the world.\<close>

record quotaPlugin =
  name :: string
  plugin_config :: Config
  managers :: "string \<rightharpoonup> IdentifierManager"

definition zero_RateLimitInfo :: RateLimitInfo where
  "zero_RateLimitInfo =
     \<lparr>rli_Limit = 0, rli_Burst = 0, rli_Available = 0, rli_ResetTime = zero_Time,
      rli_RetryAfter = 0\<rparr>"

definition manager_key :: "IdentifierConfig \<Rightarrow> string" where
  "manager_key c = ic_Type c @ '':'' @ ic_Name c @ '':'' @ ic_Value c"

definition new_manager :: "IdentifierConfig \<Rightarrow> IdentifierManager" where
  "new_manager c =
     \<lparr>config = c,
      rateLimiter = (if rl_Enabled (ic_RateLimit c) then Some (ic_RateLimit c) else None),
      quotaManager = ic_Quota c\<rparr>"

text \<open>The loop of \<open>New\<close> over the configured identifiers, in their order: a later identifier
  with the key of an earlier one replaces its manager.\<close>

fun New_managers ::
  "IdentifierConfig list \<Rightarrow> nat \<Rightarrow> (string \<rightharpoonup> IdentifierManager)
   \<Rightarrow> error + (string \<rightharpoonup> IdentifierManager)" where
  "New_managers [] i ms = Inr ms"
| "New_managers (identifierConfig # rest) i ms =
     (case Validate identifierConfig of
        Inl err \<Rightarrow> Inl (Errorf (''identifier '' @ utoa i @ '' validation failed'') err)
      | Inr _ \<Rightarrow>
          New_managers rest (Suc i)
            (ms(manager_key identifierConfig \<mapsto> new_manager identifierConfig)))"

text \<open>\<open>New\<close>. Connecting the client (dial, \<open>AUTH\<close>, \<open>SELECT\<close>) and its first \<open>PING\<close> are one
  exchange with the store.\<close>

definition New :: "Config \<Rightarrow> string \<Rightarrow> world \<Rightarrow> (error + quotaPlugin) \<times> world" where
  "New cfg nm w =
     (if Address (Persistence_Redis cfg) = [] then (Inl (Error ''redis address is required''), w)
      else if Identifiers cfg = [] then (Inl (Error ''at least one identifier is required''), w)
      else
        (case redis_Ping w of
           (Inl err, w1) \<Rightarrow> (Inl (Errorf ''failed to create Redis client'' err), w1)
         | (Inr _, w1) \<Rightarrow>
             (case New_managers (Identifiers cfg) 0 Map.empty of
                Inl err \<Rightarrow> (Inl err, w1)
              | Inr ms \<Rightarrow> (Inr \<lparr>name = nm, plugin_config = cfg, managers = ms\<rparr>, w1))))"

subsection \<open>Checking one identifier\<close>

definition limiter_on :: "IdentifierManager \<Rightarrow> bool" where
  "limiter_on manager = (rl_Enabled (ic_RateLimit (config manager)) \<and> rateLimiter manager \<noteq> None)"

definition checkIdentifier ::
  "Request \<Rightarrow> IdentifierManager \<Rightarrow> string \<Rightarrow> world \<Rightarrow> (error + QuotaResponse) \<times> world" where
  "checkIdentifier req manager identifier w =
     (case (if limiter_on manager
            then (case Allow (the (rateLimiter manager)) identifier w of
                    (allowed, w1) \<Rightarrow>
                      (case GetLimitInfo (the (rateLimiter manager)) identifier w1 of
                         (info, w2) \<Rightarrow>
                           ((case allowed of Inl err \<Rightarrow> True | Inr b \<Rightarrow> b),
                            (case info of Inl err \<Rightarrow> zero_RateLimitInfo | Inr i \<Rightarrow> i),
                            w2)))
            else (True, zero_RateLimitInfo, w)) of
        (rateLimitAllowed, rateLimitInfo, w2) \<Rightarrow>
          if \<not> rateLimitAllowed
          then (Inr \<lparr>qr_Allowed = False, qr_RateLimit = Some rateLimitInfo, qr_Quota = None,
                     qr_Identifier = identifier, qr_IdentifierType = ic_Type (config manager),
                     qr_Reason = ''Rate limit exceeded'',
                     qr_ResponseCode = rl_ResponseReachedLimitCode (ic_RateLimit (config manager)),
                     qr_ResponseBody = rl_ResponseReachedLimitBody (ic_RateLimit (config manager))\<rparr>,
                w2)
          else
            (case (if IsQuotaEnabled (quotaManager manager)
                   then (case CheckQuota (quotaManager manager) identifier w2 of
                           (Inl err, w3) \<Rightarrow> (True, None, w3)
                         | (Inr (quotaAllowed, quotaInfo), w3) \<Rightarrow> (quotaAllowed, quotaInfo, w3))
                   else (True, None, w2)) of
               (quotaAllowed, quotaInfo, w3) \<Rightarrow>
                 if \<not> quotaAllowed
                 then (Inr \<lparr>qr_Allowed = False,
                            qr_RateLimit = (if limiter_on manager then Some rateLimitInfo else None),
                            qr_Quota = quotaInfo, qr_Identifier = identifier,
                            qr_IdentifierType = ic_Type (config manager),
                            qr_Reason = ''Quota exceeded'',
                            qr_ResponseCode = qs_ResponseReachedLimitCode (ic_Quota (config manager)),
                            qr_ResponseBody = qs_ResponseReachedLimitBody (ic_Quota (config manager))\<rparr>,
                       w3)
                 else (Inr \<lparr>qr_Allowed = True,
                            qr_RateLimit = (if limiter_on manager then Some rateLimitInfo else None),
                            qr_Quota = quotaInfo, qr_Identifier = identifier,
                            qr_IdentifierType = ic_Type (config manager),
                            qr_Reason = ''Request allowed'',
                            qr_ResponseCode = 0, qr_ResponseBody = []\<rparr>,
                       w3)))"

subsection \<open>Serving a request\<close>

definition writeQuotaHeaders :: "QuotaResponse \<Rightarrow> world \<Rightarrow> world" where
  "writeQuotaHeaders response w =
     (let w1 = (case qr_RateLimit response of
                  None \<Rightarrow> w
                | Some rl \<Rightarrow>
                    (let wa = emit (SetHeader ''X-RateLimit-Limit'' (Itoa (rli_Limit rl))) w;
                         wb = emit (SetHeader ''X-RateLimit-Remaining'' (Itoa (rli_Available rl))) wa;
                         wc = emit (SetHeader ''X-RateLimit-Reset'' (Itoa (Unix (rli_ResetTime rl)))) wb
                     in if rli_RetryAfter rl > 0
                        then emit (SetHeader ''Retry-After''
                                     (Itoa (int64_of_float (Seconds (rli_RetryAfter rl))))) wc
                        else wc))
      in case qr_Quota response of
           None \<Rightarrow> w1
         | Some q \<Rightarrow>
             (let wa = emit (SetHeader ''X-Quota-Limit'' (Itoa (qi_Limit q))) w1;
                  wb = emit (SetHeader ''X-Quota-Used'' (Itoa (qi_Used q))) wa;
                  wc = emit (SetHeader ''X-Quota-Remaining'' (Itoa (qi_Remaining q))) wb
              in emit (SetHeader ''X-Quota-Reset'' (Itoa (Unix (qi_ResetTime q)))) wc))"

text \<open>The loop of \<open>ServeHTTP\<close> over \<open>q.managers\<close>. The Go specification leaves the iteration
  order of a map to the runtime, which varies it from one loop to the next: \<open>order\<close> is the
  order in which this run of the loop visits the keys, and \<open>range_order\<close> says that it is one
  the runtime may choose, every key of the map once.\<close>

definition range_order :: "(string \<rightharpoonup> IdentifierManager) \<Rightarrow> string list \<Rightarrow> bool" where
  "range_order ms order = (distinct order \<and> set order = dom ms)"

fun ServeHTTP_loop ::
  "quotaPlugin \<Rightarrow> Request \<Rightarrow> string list \<Rightarrow> world
   \<Rightarrow> (QuotaResponse \<times> IdentifierManager) option \<times> world" where
  "ServeHTTP_loop q req [] w = (None, w)"
| "ServeHTTP_loop q req (key # keys) w =
     (case managers q key of
        None \<Rightarrow> ServeHTTP_loop q req keys w
      | Some manager \<Rightarrow>
          (let identifier = extractIdentifier req (config manager)
           in if identifier = [] then ServeHTTP_loop q req keys w
              else (case checkIdentifier req manager identifier w of
                      (Inl err, w1) \<Rightarrow> ServeHTTP_loop q req keys w1
                    | (Inr resp, w1) \<Rightarrow>
                        (Some (resp\<lparr>qr_IdentifierType := key\<rparr>, manager), w1))))"





section \<open>Properties and sample inputs\<close>

subsection \<open>What the claims speak about\<close>

text \<open>A rule matches a request when \<open>extractIdentifier\<close> returns a non-empty identifier: the
  loop of \<open>ServeHTTP\<close> skips the empty ones. The fallback values of a Header rule are the three
  sentinels.\<close>

definition matches :: "Request \<Rightarrow> IdentifierConfig \<Rightarrow> bool" where
  "matches req c = (extractIdentifier req c \<noteq> [])"

definition sentinel :: "string \<Rightarrow> bool" where
  "sentinel v = (v = ''sk-unknown'' \<or> v = ''anonymous'' \<or> v = ''guest'')"

text \<open>The invariant of a token bucket: \<open>0 <= tokens <= burst\<close>, as \<open>float64\<close> comparisons.\<close>

definition bucket_inv :: "TokenBucket \<Rightarrow> bool" where
  "bucket_inv b = (f_le (Fin 0) (Tokens b) \<and> f_le (Tokens b) (float64_of_int (Burst b)))"


definition is_read :: "event \<Rightarrow> bool" where
  "is_read e = (case e of Cmd (GET k) \<Rightarrow> True | _ \<Rightarrow> False)"

subsection \<open>Sample configurations and requests\<close>

definition no_quota :: QuotaSettings where
  "no_quota =
     \<lparr>qs_Enabled = False, qs_Limit = 0, qs_Period = [],
      qs_ResponseReachedLimitCode = 0, qs_ResponseReachedLimitBody = []\<rparr>"

definition no_rate_limit :: RateLimitConfig where
  "no_rate_limit =
     \<lparr>rl_Enabled = False, rl_Rate = 0, rl_Burst = 0, rl_Period = [],
      rl_ResponseReachedLimitCode = 0, rl_ResponseReachedLimitBody = []\<rparr>"

text \<open>The rule \<open>{Header, X-User-ID, guest, rate = 5/1m, burst = 5}\<close>.\<close>

definition guest_limit :: RateLimitConfig where
  "guest_limit =
     \<lparr>rl_Enabled = True, rl_Rate = 5, rl_Burst = 5, rl_Period = ''1m'',
      rl_ResponseReachedLimitCode = 0, rl_ResponseReachedLimitBody = []\<rparr>"

definition guest_rule :: IdentifierConfig where
  "guest_rule =
     \<lparr>ic_Type = ''Header'', ic_Name = ''X-User-ID'', ic_Value = ''guest'',
      ic_RateLimit = guest_limit, ic_Quota = no_quota\<rparr>"

text \<open>A request from \<open>10.0.0.1:5000\<close> that carries the header line \<open>X-User-ID:\<close> with an empty
  value, one that carries \<open>X-User-ID: guest\<close>, and one without headers.\<close>

definition empty_header_request :: Request where
  "empty_header_request =
     \<lparr>Header = [''X-User-Id'' \<mapsto> [[]]], RemoteAddr = ''10.0.0.1:5000'',
      URL_Query = Map.empty, Cookies = Map.empty\<rparr>"

definition guest_request :: Request where
  "guest_request =
     \<lparr>Header = [''X-User-Id'' \<mapsto> [''guest'']], RemoteAddr = ''10.0.0.1:5000'',
      URL_Query = Map.empty, Cookies = Map.empty\<rparr>"

definition bare_request :: Request where
  "bare_request =
     \<lparr>Header = Map.empty, RemoteAddr = ''10.0.0.1:5000'',
      URL_Query = Map.empty, Cookies = Map.empty\<rparr>"

subsection \<open>Sample worlds\<close>

text \<open>A server in UTC on Tuesday 2026-11-03 at noon: the clock advances by a microsecond from
  one reading to the next, and the calendar is that of the days around the sample date. The
  store is empty and answers every command.\<close>

definition noon :: Time where
  "noon = 1793707200 * 1000000000"

definition sample_calendar :: "Time \<Rightarrow> civil" where
  "sample_calendar t =
     \<lparr>Year = 2026, Month = 11, Day = 3, Weekday = 2, ISOYear = 2026, ISOWeek = 45\<rparr>"

definition sample_Date :: "int \<Rightarrow> int \<Rightarrow> int \<Rightarrow> Time" where
  "sample_Date y m d =
     (1793664000 + ((y - 2026) * 365 + (m - 11) * 30 + (d - 3)) * 86400) * 1000000000"

definition quiet_world :: world where
  "quiet_world =
     \<lparr>kv = Map.empty, ttl = Map.empty, fault = (\<lambda>n. False), sent = 0,
      clock = (\<lambda>n. noon + 1000 * int n), ticks = 0,
      calendar = sample_calendar, time_Date = sample_Date, trace = []\<rparr>"


subsection \<open>Sample limits with a period that is not positive\<close>

text \<open>The limits \<open>{rate = 10, burst = 5, period = "0s"}\<close>, \<open>{rate = 10, burst = 5,
  period = "-1m"}\<close> and \<open>{rate = 1, burst = 1, period = "-1m"}\<close>, each in a rule on the client
  IP, and the full buckets \<open>createNewBucket\<close> builds for the first two at noon.\<close>

definition zero_period_limit :: RateLimitConfig where
  "zero_period_limit =
     \<lparr>rl_Enabled = True, rl_Rate = 10, rl_Burst = 5, rl_Period = ''0s'',
      rl_ResponseReachedLimitCode = 0, rl_ResponseReachedLimitBody = []\<rparr>"

definition negative_period_limit :: RateLimitConfig where
  "negative_period_limit =
     \<lparr>rl_Enabled = True, rl_Rate = 10, rl_Burst = 5, rl_Period = ''-1m'',
      rl_ResponseReachedLimitCode = 0, rl_ResponseReachedLimitBody = []\<rparr>"

definition one_token_limit :: RateLimitConfig where
  "one_token_limit =
     \<lparr>rl_Enabled = True, rl_Rate = 1, rl_Burst = 1, rl_Period = ''-1m'',
      rl_ResponseReachedLimitCode = 0, rl_ResponseReachedLimitBody = []\<rparr>"

definition ip_rule :: "RateLimitConfig \<Rightarrow> QuotaSettings \<Rightarrow> IdentifierConfig" where
  "ip_rule rl qs =
     \<lparr>ic_Type = ''IP'', ic_Name = [], ic_Value = [], ic_RateLimit = rl, ic_Quota = qs\<rparr>"

definition zero_period_bucket :: TokenBucket where
  "zero_period_bucket =
     \<lparr>Tokens = Fin 5, LastRefill = noon, Rate = 10, Burst = 5, RefillPeriod = 0\<rparr>"

definition negative_period_bucket :: TokenBucket where
  "negative_period_bucket =
     \<lparr>Tokens = Fin 5, LastRefill = noon, Rate = 10, Burst = 5, RefillPeriod = - Minute\<rparr>"

text \<open>The sample world with a store that fails the first command it receives.\<close>

definition failing_read_world :: world where
  "failing_read_world = quiet_world\<lparr>fault := (\<lambda>n. n = 0)\<rparr>"

text \<open>The decision of a \<open>checkIdentifier\<close> result.\<close>

definition decision :: "(error + QuotaResponse) \<times> world \<Rightarrow> error + bool" where
  "decision r = (case fst r of Inl err \<Rightarrow> Inl err | Inr resp \<Rightarrow> Inr (qr_Allowed resp))"

subsection \<open>The quota counter\<close>

text \<open>The label of the window that the \<open>i\<close>-th reading of the clock falls in, the key of an
  identifier's counter at the next reading, and the value \<open>GetQuotaInfo\<close> takes for the counter
  when it reads that key next: the integer the store holds there; an absent counter counts as
  0, and so does one that the store fails to return or that is not an \<open>int64\<close> in decimal.\<close>

definition period_label :: "string \<Rightarrow> world \<Rightarrow> nat \<Rightarrow> string" where
  "period_label period w i =
     (if period = ''Daily'' then format_date (calendar w (clock w i))
      else if period = ''Weekly'' then format_week (calendar w (clock w i))
      else if period = ''Monthly'' then format_month (calendar w (clock w i))
      else format_date (calendar w (clock w i)))"

definition counter_key :: "QuotaManager \<Rightarrow> string \<Rightarrow> world \<Rightarrow> string" where
  "counter_key qm identifier w = GetQuotaKey identifier (period_label (qs_Period qm) w (ticks w))"

definition counter_value :: "bulk option \<Rightarrow> int" where
  "counter_value v =
     (case v of
        Some (Dec c) \<Rightarrow> if in_int64 c then c else 0
      | _ \<Rightarrow> 0)"

definition counter_read :: "QuotaManager \<Rightarrow> string \<Rightarrow> world \<Rightarrow> int" where
  "counter_read qm identifier w =
     (if fault w (sent w) then 0 else counter_value (kv w (counter_key qm identifier w)))"

text \<open>The decision of a \<open>CheckQuota\<close> result and the usage in a \<open>ConsumeQuota\<close> result.\<close>

definition quota_allowed :: "(error + bool \<times> QuotaInfo option) \<times> world \<Rightarrow> error + bool" where
  "quota_allowed r = (case fst r of Inl err \<Rightarrow> Inl err | Inr (allowed, info) \<Rightarrow> Inr allowed)"

definition usage :: "(error + QuotaInfo option) \<times> world \<Rightarrow> (error + int option)" where
  "usage r = (case fst r of Inl err \<Rightarrow> Inl err | Inr info \<Rightarrow> Inr (map_option qi_Used info))"

text \<open>The limit \<open>3/Daily\<close>, and the sample world with the counter of \<open>10.0.0.1\<close> at 2 and at 3.\<close>

definition daily_quota :: QuotaSettings where
  "daily_quota =
     \<lparr>qs_Enabled = True, qs_Limit = 3, qs_Period = ''Daily'',
      qs_ResponseReachedLimitCode = 0, qs_ResponseReachedLimitBody = []\<rparr>"

definition counter_world :: "int \<Rightarrow> world" where
  "counter_world c = quiet_world\<lparr>kv := [''quota:10.0.0.1:2026-11-03'' \<mapsto> Dec c]\<rparr>"

text \<open>A counter that \<open>INCRBY 1\<close> can increment: absent, or an \<open>int64\<close> below the largest.\<close>

definition counter_ok :: "bulk option \<Rightarrow> bool" where
  "counter_ok v =
     (case v of
        None \<Rightarrow> True
      | Some (Dec c) \<Rightarrow> in_int64 c \<and> in_int64 (c + 1)
      | Some _ \<Rightarrow> False)"

subsection \<open>The resolver\<close>

text \<open>The \<open>(rule, identifier)\<close> result of the loop of \<open>ServeHTTP\<close>: the key of the matched manager
  and the identifier it extracted.\<close>

definition resolved ::
  "(QuotaResponse \<times> IdentifierManager) option \<times> world \<Rightarrow> (string \<times> string) option" where
  "resolved r = map_option (\<lambda>(resp, m). (qr_IdentifierType resp, qr_Identifier resp)) (fst r)"

text \<open>A configuration with two rules, the Header rule for \<open>guest\<close> first and a rule on the
  client IP second, and the plugin \<open>New\<close> builds from it.\<close>

definition two_rule_config :: Config where
  "two_rule_config =
     \<lparr>Persistence_Redis = \<lparr>Address = ''redis:6379'', Password = [], DB = 0\<rparr>,
      Identifiers = [guest_rule, ip_rule guest_limit no_quota]\<rparr>"

definition two_rule_plugin :: quotaPlugin where
  "two_rule_plugin =
     \<lparr>name = ''quota'', plugin_config = two_rule_config,
      managers = [''Header:X-User-ID:guest'' \<mapsto> new_manager guest_rule,
                  ''IP::'' \<mapsto> new_manager (ip_rule guest_limit no_quota)]\<rparr>"

text \<open>The first match in a given order of the keys: what the resolver is to return when it
  visits the managers in that order.\<close>

fun first_match :: "quotaPlugin \<Rightarrow> Request \<Rightarrow> string list \<Rightarrow> (string \<times> string) option" where
  "first_match q req [] = None"
| "first_match q req (key # keys) =
     (case managers q key of
        None \<Rightarrow> first_match q req keys
      | Some m \<Rightarrow>
          if extractIdentifier req (config m) = [] then first_match q req keys
          else Some (key, extractIdentifier req (config m)))"

subsection \<open>Serving a request\<close>


















section \<open>Identifier extraction: the Header rule\<close>

lemma canonical_X_User_ID: "CanonicalMIMEHeaderKey ''X-User-ID'' = ''X-User-Id''"
  by code_simp

lemma canonical_X_Forwarded_For: "CanonicalMIMEHeaderKey ''X-Forwarded-For'' = ''X-Forwarded-For''"
  by code_simp

lemma canonical_X_Real_IP: "CanonicalMIMEHeaderKey ''X-Real-IP'' = ''X-Real-Ip''"
  by code_simp

text \<open>\<open>Header.Get\<close> is empty exactly when the header is absent or its first value is empty.\<close>

lemma Header_Get_empty_iff:
  "Header_Get req key = [] \<longleftrightarrow>
     (case Header req (CanonicalMIMEHeaderKey key) of
        None \<Rightarrow> True
      | Some vs \<Rightarrow> vs = [] \<or> hd vs = [])"
  by (auto simp: Header_Get_def split: option.splits list.splits)

text \<open>C5, as stated, fails: the claim lets a Header rule whose header is present match only on
  an exact value. A request that carries the header with an empty value has the header present
  with a value other than \<open>guest\<close>, and the rule with the sentinel \<open>guest\<close> matches it all the
  same, with the identifier \<open>guest\<close>: the code reads the header with \<open>Header.Get\<close>, which does
  not tell an empty value from an absent header.\<close>

theorem header_present_but_empty_counterexample:
  "Header empty_header_request (CanonicalMIMEHeaderKey (ic_Name guest_rule)) = Some [[]]
   \<and> [] \<noteq> ic_Value guest_rule
   \<and> matches empty_header_request guest_rule
   \<and> extractIdentifier empty_header_request guest_rule = ''guest''"
  by (simp add: matches_def extractIdentifier_def Header_Get_def guest_rule_def
      empty_header_request_def canonical_X_User_ID)

text \<open>C5, amended: for every Header rule and every request, if the value \<open>Header.Get\<close> reads
  for \<open>field_name\<close> is non-empty, the rule matches if and only if that value equals
  \<open>expected_value\<close>, with the value as identifier; if the header is absent or its value is
  empty, the rule matches exactly when \<open>expected_value\<close> is one of the sentinels
  \<open>sk-unknown\<close>, \<open>anonymous\<close>, \<open>guest\<close>, with \<open>expected_value\<close> as identifier.\<close>

theorem header_rule:
  assumes "ic_Type c = ''Header''"
  shows "(Header_Get req (ic_Name c) \<noteq> [] \<longrightarrow>
            (matches req c \<longleftrightarrow> Header_Get req (ic_Name c) = ic_Value c) \<and>
            (matches req c \<longrightarrow> extractIdentifier req c = Header_Get req (ic_Name c)))
       \<and> (Header_Get req (ic_Name c) = [] \<longrightarrow>
            (matches req c \<longleftrightarrow> sentinel (ic_Value c)) \<and>
            (matches req c \<longrightarrow> extractIdentifier req c = ic_Value c))"
  using assms by (auto simp: matches_def sentinel_def extractIdentifier_def Let_def)

text \<open>The theorem at the request that carries \<open>X-User-ID: guest\<close>, and at the request without
  the header.\<close>

theorem header_rule_witness:
  "ic_Type guest_rule = ''Header''
   \<and> Header_Get guest_request (ic_Name guest_rule) = ''guest''
   \<and> matches guest_request guest_rule
   \<and> extractIdentifier guest_request guest_rule = ''guest''
   \<and> Header_Get bare_request (ic_Name guest_rule) = []
   \<and> sentinel (ic_Value guest_rule)
   \<and> extractIdentifier bare_request guest_rule = ''guest''"
proof -
  have t: "ic_Type guest_rule = ''Header''"
    by (simp add: guest_rule_def)
  have g: "Header_Get guest_request (ic_Name guest_rule) = ''guest''"
    by (simp add: Header_Get_def guest_request_def guest_rule_def canonical_X_User_ID)
  have b: "Header_Get bare_request (ic_Name guest_rule) = []"
    by (simp add: Header_Get_def bare_request_def)
  have s: "sentinel (ic_Value guest_rule)"
    by (simp add: sentinel_def guest_rule_def)
  have v: "ic_Value guest_rule = ''guest''"
    by (simp add: guest_rule_def)
  from header_rule [OF t, of guest_request] header_rule [OF t, of bare_request] t g b s v
  show ?thesis by simp
qed

section \<open>The store and the clock: what a step leaves alone\<close>

lemma redis_Get_world:
  "snd (redis_Get key w) = w\<lparr>sent := Suc (sent w), trace := trace w @ [Cmd (GET key)]\<rparr>"
  by (simp add: redis_Get_def exchange_def split: option.splits)

lemma getBucket_frame:
  assumes "getBucket rl key w = (r, w')"
  shows "kv w' = kv w \<and> ttl w' = ttl w \<and> fault w' = fault w \<and> clock w' = clock w
         \<and> (\<exists>es. trace w' = trace w @ es \<and> list_all is_read es \<and> sent w' = sent w + length es)"
  using assms
  by (auto simp: getBucket_def redis_Get_def exchange_def createNewBucket_def time_Now_def
      is_read_def split: sum.splits option.splits prod.splits if_splits)


lemma redis_Set_failed:
  assumes "fault w (sent w)"
  shows "redis_Set key v d w =
           (Inl (Error ''redis error''),
            w\<lparr>sent := Suc (sent w),
              trace := trace w @ [Cmd (if d > 0 then SETEX key (int64_of_float (Seconds d)) (Sprintf_v v)
                                       else SET key (Sprintf_v v))]\<rparr>)"
  using assms by (simp add: redis_Set_def exchange_def Let_def)


section \<open>The token bucket\<close>

subsection \<open>Arithmetic of the refill\<close>

lemma f_add_zero [simp]: "f_add x (Fin 0) = x"
  by (cases x) simp_all

lemma math_Min_idem: "math_Min (math_Min x (Fin b)) (Fin b) = math_Min x (Fin b)"
  by (cases x) (simp_all add: math_Min_def)

lemma time_Sub_self [simp]: "time_Sub t t = 0"
  by (simp add: time_Sub_def maxInt64_def minInt64_def)

lemma time_Sub_nonneg: "u \<le> t \<Longrightarrow> 0 \<le> time_Sub t u"
  by (simp add: time_Sub_def maxInt64_def minInt64_def)

lemma bucket_inv_Fin:
  "bucket_inv b \<longleftrightarrow> (\<exists>x. Tokens b = Fin x \<and> 0 \<le> x \<and> x \<le> real_of_int (Burst b))"
  by (cases "Tokens b") (auto simp: bucket_inv_def float64_of_int_def)

lemma ParseDuration_1m: "ParseDuration ''1m'' = Inr 60000000000"
  by code_simp

lemma ParseDuration_0s: "ParseDuration ''0s'' = Inr 0"
  by code_simp

lemma ParseDuration_minus_1m: "ParseDuration ''-1m'' = Inr (- 60000000000)"
  by code_simp

subsection \<open>Where the period is positive\<close>

text \<open>With a positive refill period the bucket behaves as the specification describes it: a
  new bucket, a refill at a time not before the last one, and the consumption of \<open>n\<close> tokens
  that are there keep \<open>0 <= tokens <= burst\<close>, and a second refill at the same instant changes
  nothing (this much holds for every period but zero).\<close>

lemma createNewBucket_inv:
  assumes "createNewBucket rl w = (Inr b, w')" "0 \<le> rl_Burst rl"
  shows "bucket_inv b"
  using assms
  by (auto simp: createNewBucket_def time_Now_def bucket_inv_def float64_of_int_def
      split: sum.splits)

lemma refillBucket_inv:
  assumes "bucket_inv b" "0 \<le> Rate b" "0 < RefillPeriod b" "LastRefill b \<le> now"
  shows "bucket_inv (refillBucket b now)"
proof -
  from assms(1) obtain x where x: "Tokens b = Fin x" "0 \<le> x" "x \<le> real_of_int (Burst b)"
    by (auto simp: bucket_inv_Fin)
  have e: "0 \<le> time_Sub now (LastRefill b)"
    using assms(4) by (rule time_Sub_nonneg)
  define a where "a = real_of_int (Rate b) * (real_of_int (time_Sub now (LastRefill b)) / 1000000000)
                      / (real_of_int (RefillPeriod b) / 1000000000)"
  have a: "0 \<le> a"
    unfolding a_def using assms(2,3) e by simp
  have "Tokens (refillBucket b now) = Fin (min (x + a) (real_of_int (Burst b)))"
    using assms(3) x(1)
    by (simp add: refillBucket_def Let_def Seconds_def float64_of_int_def math_Min_def a_def)
  then show ?thesis
    using x a by (simp add: bucket_inv_Fin refillBucket_def Let_def)
qed

lemma consume_inv:
  assumes "bucket_inv b" "f_ge (Tokens b) (float64_of_int n)" "0 \<le> n"
  shows "bucket_inv (b\<lparr>Tokens := f_sub (Tokens b) (float64_of_int n)\<rparr>)"
  using assms
  by (auto simp: bucket_inv_Fin f_ge_def f_sub_def float64_of_int_def)

lemma refillBucket_idem:
  assumes "RefillPeriod b \<noteq> 0"
  shows "refillBucket (refillBucket b t) t = refillBucket b t"
  using assms
  by (simp add: refillBucket_def Let_def Seconds_def float64_of_int_def math_Min_idem)

subsection \<open>Where the period is not positive\<close>

text \<open>\<open>Validate\<close> asks of an enabled rate limit a positive rate, a positive burst and a period
  that parses. \<open>time.ParseDuration\<close> accepts \<open>0s\<close> and \<open>-1m\<close>, so a period that is zero or
  negative passes, and \<open>refillBucket\<close> divides by it.\<close>

lemma Validate_zero_period: "Validate (ip_rule zero_period_limit no_quota) = Inr ()"
  apply (simp add: Validate_def ip_rule_def zero_period_limit_def no_quota_def
      ParseRateLimitPeriod_def)
  apply (simp add: ParseDuration_0s)
  done

text \<open>C8 does not hold of the code: the claim calls the refill idempotent at a fixed instant for
  every bucket state. The limit \<open>{rate = 10, burst = 5, period = "0s"}\<close> passes \<open>Validate\<close> and
  gives buckets with a refill period of zero. Refilling the full bucket one second after its
  last refill adds \<open>10 * 1 / 0 = +Inf\<close> tokens and leaves 5; refilling the result again at the
  same instant adds \<open>10 * 0 / 0 = NaN\<close> tokens, and the bucket holds NaN tokens.\<close>

theorem refill_zero_period_not_idempotent:
  "Validate (ip_rule zero_period_limit no_quota) = Inr ()
   \<and> fst (createNewBucket zero_period_limit quiet_world) = Inr zero_period_bucket
   \<and> Tokens (refillBucket zero_period_bucket (noon + Second)) = Fin 5
   \<and> Tokens (refillBucket (refillBucket zero_period_bucket (noon + Second)) (noon + Second)) = NaN"
proof -
  have c: "fst (createNewBucket zero_period_limit quiet_world) = Inr zero_period_bucket"
    by (simp add: createNewBucket_def ParseRateLimitPeriod_def ParseDuration_0s
        zero_period_limit_def zero_period_bucket_def quiet_world_def time_Now_def
        float64_of_int_def)
  have r: "Tokens (refillBucket zero_period_bucket (noon + Second)) = Fin 5
     \<and> Tokens (refillBucket (refillBucket zero_period_bucket (noon + Second)) (noon + Second)) = NaN"
    by (simp add: zero_period_bucket_def refillBucket_def Let_def Seconds_def float64_of_int_def
        math_Min_def time_Sub_def maxInt64_def minInt64_def Second_def)
  from Validate_zero_period c r show ?thesis by simp
qed

text \<open>C4 does not hold of the code: the claim has every refill under a validated configuration
  and a clock that does not go back keep \<open>0 <= tokens <= burst\<close>. The limit \<open>{rate = 10,
  burst = 5, period = "-1m"}\<close> passes \<open>Validate\<close>; its full bucket satisfies the invariant, and
  a refill two minutes after the last one adds \<open>10 * 120 / (-60) = -20\<close> tokens and leaves
  \<open>-15\<close>.\<close>

theorem refill_negative_period_breaks_invariant:
  "Validate (ip_rule negative_period_limit no_quota) = Inr ()
   \<and> fst (createNewBucket negative_period_limit quiet_world) = Inr negative_period_bucket
   \<and> bucket_inv negative_period_bucket
   \<and> LastRefill negative_period_bucket \<le> noon + 120 * Second
   \<and> Tokens (refillBucket negative_period_bucket (noon + 120 * Second)) = Fin (- 15)
   \<and> \<not> bucket_inv (refillBucket negative_period_bucket (noon + 120 * Second))"
  by (simp add: Validate_def ip_rule_def no_quota_def createNewBucket_def ParseRateLimitPeriod_def
      ParseDuration_minus_1m
      negative_period_limit_def negative_period_bucket_def quiet_world_def time_Now_def
      refillBucket_def Let_def Seconds_def float64_of_int_def bucket_inv_def Minute_def
      math_Min_def time_Sub_def maxInt64_def minInt64_def Second_def)

section \<open>The contract of \<open>Allow\<close>\<close>





text \<open>When the store fails the first write, \<open>Allow\<close> returns the error instead, and leaves the
  store as it was.\<close>

lemma Allow_write_failed:
  assumes "getBucket rl (GetRateLimitKey identifier) w = (Inr b0, w1)"
    and "f_ge (Tokens (refillBucket b0 (clock w1 (ticks w1)))) (Fin 1)"
    and "fault w (sent w1)"
  shows "\<exists>err w'. Allow rl identifier w = (Inl err, w') \<and> kv w' = kv w"
proof -
  from getBucket_frame [OF assms(1)] have fr: "kv w1 = kv w" "fault w1 = fault w"
    by auto
  let ?w2 = "w1\<lparr>ticks := Suc (ticks w1)\<rparr>"
  have "fault ?w2 (sent ?w2)"
    using assms(3) fr(2) by simp
  then show ?thesis
    using assms(1,2) fr(1)
    by (simp add: Allow_def Let_def time_Now_def saveBucket_def redis_Set_failed)
qed

section \<open>Failing open\<close>

text \<open>With a positive period the limiter fails open: when the store fails the first read of
  the bucket, \<open>getBucket\<close> returns a full bucket dated at the reading of the clock and no
  error, \<open>Allow\<close> does not return false, and \<open>checkIdentifier\<close> does not deny the request for
  its rate.\<close>

lemma getBucket_read_failed:
  assumes "fault w (sent w)" "ParseRateLimitPeriod rl = Inr p"
  shows "getBucket rl key w =
           (Inr \<lparr>Tokens = float64_of_int (rl_Burst rl), LastRefill = clock w (ticks w),
                 Rate = rl_Rate rl, Burst = rl_Burst rl, RefillPeriod = p\<rparr>,
            w\<lparr>sent := Suc (sent w), trace := trace w @ [Cmd (GET (key @ '':tokens''))],
              ticks := Suc (ticks w)\<rparr>)"
  using assms
  by (simp add: getBucket_def redis_Get_def exchange_def createNewBucket_def time_Now_def)

lemma refill_full_bucket:
  assumes "Tokens b = float64_of_int (Burst b)" "0 \<le> Rate b" "0 < RefillPeriod b"
    "LastRefill b \<le> now"
  shows "Tokens (refillBucket b now) = float64_of_int (Burst b)"
proof -
  have e: "0 \<le> time_Sub now (LastRefill b)"
    using assms(4) by (rule time_Sub_nonneg)
  have "0 \<le> real_of_int (Rate b) * (real_of_int (time_Sub now (LastRefill b)) / 1000000000)
                      / (real_of_int (RefillPeriod b) / 1000000000)"
    using assms(2,3) e by simp
  then show ?thesis
    using assms(1,3)
    by (simp add: refillBucket_def Let_def Seconds_def float64_of_int_def math_Min_def)
qed

lemma fail_open_positive_period:
  assumes "fault w (sent w)" "ParseRateLimitPeriod rl = Inr p" "0 < p" "0 \<le> rl_Rate rl"
    "1 \<le> rl_Burst rl" "clock w (ticks w) \<le> clock w (Suc (ticks w))"
  shows "fst (Allow rl identifier w) \<noteq> Inr False"
proof -
  let ?b0 = "\<lparr>Tokens = float64_of_int (rl_Burst rl), LastRefill = clock w (ticks w),
                 Rate = rl_Rate rl, Burst = rl_Burst rl, RefillPeriod = p\<rparr>"
  have "Tokens (refillBucket ?b0 (clock w (Suc (ticks w)))) = float64_of_int (Burst ?b0)"
    by (rule refill_full_bucket) (use assms in simp_all)
  then have "f_ge (Tokens (refillBucket ?b0 (clock w (Suc (ticks w))))) (Fin 1)"
    using assms(5) by (simp add: f_ge_def float64_of_int_def)
  then show ?thesis
    using getBucket_read_failed [OF assms(1,2), of "GetRateLimitKey identifier"]
    by (simp add: Allow_def Let_def time_Now_def split: prod.splits sum.splits)
qed

lemma checkIdentifier_not_rate_limited:
  assumes "fst (Allow (the (rateLimiter m)) identifier w) \<noteq> Inr False"
  shows "\<exists>r w'. checkIdentifier req m identifier w = (Inr r, w')
           \<and> qr_Reason r \<noteq> ''Rate limit exceeded''"
  using assms
  by (auto simp: checkIdentifier_def split: prod.splits sum.splits)

lemma checkIdentifier_rate_limited:
  assumes "limiter_on m" "fst (Allow (the (rateLimiter m)) identifier w) = Inr False"
  shows "\<exists>r w'. checkIdentifier req m identifier w = (Inr r, w') \<and> \<not> qr_Allowed r
           \<and> qr_Reason r = ''Rate limit exceeded''
           \<and> qr_ResponseCode r = rl_ResponseReachedLimitCode (ic_RateLimit (config m))"
  using assms
  by (auto simp: checkIdentifier_def split: prod.splits sum.splits)

lemma Allow_failing:
  "fst (Allow one_token_limit ''10.0.0.1'' failing_read_world) = Inr False"
  by (simp add: Allow_def Let_def getBucket_def redis_Get_def exchange_def createNewBucket_def
      time_Now_def ParseRateLimitPeriod_def ParseDuration_minus_1m one_token_limit_def
      failing_read_world_def quiet_world_def GetRateLimitKey_def float64_of_int_def
      refillBucket_def Seconds_def math_Min_def time_Sub_def maxInt64_def minInt64_def f_ge_def)

text \<open>C7 does not hold of the code: the claim has the limiter allow the request whenever the
  store fails the read of the bucket, under a validated configuration whose period parses.
  The limit \<open>{rate = 1, burst = 1, period = "-1m"}\<close> passes \<open>Validate\<close>. When the first read
  fails, \<open>getBucket\<close> builds the fresh bucket with one token at noon; \<open>Allow\<close> reads the clock a
  microsecond later and refills by \<open>1 * 0.000001 / (-60)\<close> tokens, which leaves less than one
  token: \<open>Allow\<close> returns false without an error and \<open>checkIdentifier\<close> denies the request.\<close>

theorem fail_open_negative_period_denies:
  "Validate (ip_rule one_token_limit no_quota) = Inr ()
   \<and> fst (redis_Get (GetRateLimitKey ''10.0.0.1'' @ '':tokens'') failing_read_world)
       = Inl (Error ''redis error'')
   \<and> fst (getBucket one_token_limit (GetRateLimitKey ''10.0.0.1'') failing_read_world)
       = Inr \<lparr>Tokens = Fin 1, LastRefill = noon, Rate = 1, Burst = 1, RefillPeriod = - Minute\<rparr>
   \<and> fst (Allow one_token_limit ''10.0.0.1'' failing_read_world) = Inr False
   \<and> decision (checkIdentifier bare_request (new_manager (ip_rule one_token_limit no_quota))
                  ''10.0.0.1'' failing_read_world) = Inr False"
proof -
  have v: "Validate (ip_rule one_token_limit no_quota) = Inr ()"
    by (simp add: Validate_def ip_rule_def no_quota_def ParseRateLimitPeriod_def
        ParseDuration_minus_1m one_token_limit_def)
  have g: "fst (redis_Get (GetRateLimitKey ''10.0.0.1'' @ '':tokens'') failing_read_world)
       = Inl (Error ''redis error'')"
    by (simp add: redis_Get_def exchange_def failing_read_world_def quiet_world_def)
  have b: "fst (getBucket one_token_limit (GetRateLimitKey ''10.0.0.1'') failing_read_world)
       = Inr \<lparr>Tokens = Fin 1, LastRefill = noon, Rate = 1, Burst = 1, RefillPeriod = - Minute\<rparr>"
    by (simp add: getBucket_def redis_Get_def exchange_def createNewBucket_def
      time_Now_def ParseRateLimitPeriod_def ParseDuration_minus_1m one_token_limit_def
      failing_read_world_def quiet_world_def float64_of_int_def Minute_def)
  have m: "limiter_on (new_manager (ip_rule one_token_limit no_quota))"
    "the (rateLimiter (new_manager (ip_rule one_token_limit no_quota))) = one_token_limit"
    by (simp_all add: limiter_on_def new_manager_def ip_rule_def one_token_limit_def)
  from checkIdentifier_rate_limited [OF m(1), of "''10.0.0.1''" failing_read_world bare_request]
    Allow_failing m(2)
  have "decision (checkIdentifier bare_request (new_manager (ip_rule one_token_limit no_quota))
                  ''10.0.0.1'' failing_read_world) = Inr False"
    by (auto simp: decision_def)
  with v g b Allow_failing show ?thesis by simp
qed

section \<open>The quota counter\<close>

subsection \<open>Steps of the quota manager\<close>

lemma GetQuotaPeriodKey_eq:
  "GetQuotaPeriodKey period w = (period_label period w (ticks w), w\<lparr>ticks := Suc (ticks w)\<rparr>)"
  by (simp add: GetQuotaPeriodKey_def time_Now_def period_label_def)

lemma GetQuotaInfo_used:
  assumes "qs_Enabled qm"
  shows "\<exists>info w'. GetQuotaInfo qm identifier w = (Inr info, w')
           \<and> qi_Used info = counter_read qm identifier w
           \<and> qi_Limit info = qs_Limit qm
           \<and> kv w' = kv w \<and> ttl w' = ttl w
           \<and> trace w' = trace w @ [Cmd (GET (counter_key qm identifier w))]"
  using assms
  by (auto simp: GetQuotaInfo_def GetQuotaPeriodKey_eq redis_Get_def exchange_def Let_def
      getNextResetTime_def time_Until_def time_Now_def counter_read_def counter_key_def
      counter_value_def ParseInt_def
      split: prod.splits sum.splits option.splits bulk.splits if_splits)

lemma redis_IncrBy_ok:
  assumes "\<not> fault w (sent w)" "counter_ok (kv w key)"
  shows "redis_IncrBy key 1 w =
           (Inr (counter_value (kv w key) + 1),
            w\<lparr>sent := Suc (sent w), trace := trace w @ [Cmd (INCRBY key 1)],
              kv := (kv w)(key \<mapsto> Dec (counter_value (kv w key) + 1))\<rparr>)"
  using assms
  by (auto simp: redis_IncrBy_def exchange_def counter_ok_def counter_value_def
      split: option.splits bulk.splits)

lemma redis_IncrBy_trace:
  "trace (snd (redis_IncrBy key n w)) = trace w @ [Cmd (INCRBY key n)]"
  by (auto simp: redis_IncrBy_def exchange_def split: option.splits bulk.splits)

lemma redis_Expire_frame:
  assumes "redis_Expire key d w = (r, w')"
  shows "kv w' = kv w \<and> (\<exists>es. trace w' = trace w @ es)"
  using assms by (auto simp: redis_Expire_def exchange_def Let_def split: if_splits)

lemma getNextResetTime_frame:
  assumes "getNextResetTime qm w = (t, w')"
  shows "w' = w\<lparr>ticks := Suc (ticks w)\<rparr>"
  using assms by (auto simp: getNextResetTime_def time_Now_def)

lemma time_Until_frame:
  assumes "time_Until t w = (d, w')"
  shows "w' = w\<lparr>ticks := Suc (ticks w)\<rparr>"
  using assms by (auto simp: time_Until_def time_Now_def)

lemma GetQuotaInfo_frame:
  assumes "GetQuotaInfo qm identifier w = (r, w')"
  shows "kv w' = kv w \<and> (\<exists>es. trace w' = trace w @ es)"
  using assms
  by (auto simp: GetQuotaInfo_def GetQuotaPeriodKey_eq redis_Get_def exchange_def Let_def
      getNextResetTime_def time_Until_def time_Now_def
      split: prod.splits sum.splits option.splits if_splits)

lemma ConsumeQuota_coerces:
  assumes "n \<le> 0"
  shows "ConsumeQuota qm identifier n w = ConsumeQuota qm identifier 1 w"
  using assms by (simp add: ConsumeQuota_def)

lemma ConsumeQuota_one_kv:
  assumes "qs_Enabled qm" "\<not> fault w (sent w)" "counter_ok (kv w (counter_key qm identifier w))"
  shows "kv (snd (ConsumeQuota qm identifier 1 w)) =
           (kv w)(counter_key qm identifier w \<mapsto>
                    Dec (counter_value (kv w (counter_key qm identifier w)) + 1))"
proof -
  let ?key = "counter_key qm identifier w"
  let ?w1 = "w\<lparr>ticks := Suc (ticks w)\<rparr>"
  have i: "redis_IncrBy ?key 1 ?w1 =
           (Inr (counter_value (kv w ?key) + 1),
            ?w1\<lparr>sent := Suc (sent w), trace := trace w @ [Cmd (INCRBY ?key 1)],
              kv := (kv w)(?key \<mapsto> Dec (counter_value (kv w ?key) + 1))\<rparr>)"
    using redis_IncrBy_ok [of ?w1 ?key] assms(2,3) by simp
  show ?thesis
    using assms(1) i
    by (auto simp: ConsumeQuota_def GetQuotaPeriodKey_eq Let_def counter_key_def
        split: prod.splits sum.splits if_splits
        dest!: redis_Expire_frame getNextResetTime_frame time_Until_frame GetQuotaInfo_frame)
qed

lemma ConsumeQuota_one_trace:
  assumes "qs_Enabled qm"
  shows "\<exists>es. trace (snd (ConsumeQuota qm identifier 1 w)) =
           trace w @ Cmd (INCRBY (counter_key qm identifier w) 1) # es"
proof -
  let ?key = "counter_key qm identifier w"
  let ?w1 = "w\<lparr>ticks := Suc (ticks w)\<rparr>"
  have t: "trace (snd (redis_IncrBy ?key 1 ?w1)) = trace w @ [Cmd (INCRBY ?key 1)]"
    by (simp add: redis_IncrBy_trace)
  show ?thesis
    using assms t
    by (auto simp: ConsumeQuota_def GetQuotaPeriodKey_eq Let_def counter_key_def
        split: prod.splits sum.splits if_splits
        dest!: redis_Expire_frame getNextResetTime_frame time_Until_frame GetQuotaInfo_frame)
qed


lemma redis_Expire_ok:
  assumes "\<not> fault w (sent w)" "kv w key \<noteq> None"
  shows "redis_Expire key d w =
           (Inr (),
            w\<lparr>sent := Suc (sent w),
              trace := trace w @ [Cmd (EXPIRE key (int64_of_float (Seconds d)))],
              ttl := (ttl w)(key \<mapsto> int64_of_float (Seconds d))\<rparr>)"
  using assms by (auto simp: redis_Expire_def exchange_def Let_def)

lemma getNextResetTime_eq:
  "getNextResetTime qm w = (fst (getNextResetTime qm w), w\<lparr>ticks := Suc (ticks w)\<rparr>)"
  by (simp add: getNextResetTime_def time_Now_def)

lemma time_Until_eq:
  "time_Until t w = (time_Sub t (clock w (ticks w)), w\<lparr>ticks := Suc (ticks w)\<rparr>)"
  by (simp add: time_Until_def time_Now_def)

lemma counter_read_later:
  assumes "\<not> fault w' (sent w')" "calendar w' = calendar w" "clock w' = clock w"
    and "\<forall>i. period_label (qs_Period qm) w i = period_label (qs_Period qm) w (ticks w)"
  shows "counter_read qm identifier w' = counter_value (kv w' (counter_key qm identifier w))"
proof -
  have "period_label (qs_Period qm) w' (ticks w') = period_label (qs_Period qm) w (ticks w')"
    using assms(2,3) by (simp add: period_label_def)
  also have "\<dots> = period_label (qs_Period qm) w (ticks w)"
    using assms(4) by blast
  finally show ?thesis
    using assms(1) by (simp add: counter_read_def counter_key_def)
qed

lemma counter_value_after:
  assumes "counter_ok v"
  shows "counter_value (Some (Dec (counter_value v + 1))) = counter_value v + 1"
  using assms
  by (auto simp: counter_ok_def counter_value_def in_int64_def minInt64_def maxInt64_def
      split: option.splits bulk.splits)

lemma ConsumeQuota_one_info:
  assumes "qs_Enabled qm" "\<forall>i. \<not> fault w i" "counter_ok (kv w (counter_key qm identifier w))"
    and "\<forall>i. period_label (qs_Period qm) w i = period_label (qs_Period qm) w (ticks w)"
  shows "usage (ConsumeQuota qm identifier 1 w)
           = Inr (Some (counter_value (kv w (counter_key qm identifier w)) + 1))"
proof -
  let ?key = "counter_key qm identifier w"
  let ?c = "counter_value (kv w ?key)"
  let ?w1 = "w\<lparr>ticks := Suc (ticks w)\<rparr>"
  let ?w2 = "?w1\<lparr>sent := Suc (sent w), trace := trace w @ [Cmd (INCRBY ?key 1)],
              kv := (kv w)(?key \<mapsto> Dec (?c + 1))\<rparr>"
  have i: "redis_IncrBy ?key 1 ?w1 = (Inr (?c + 1), ?w2)"
    using redis_IncrBy_ok [of ?w1 ?key] assms(2,3) by simp
  obtain r5 w5 where
    e: "(if ?c + 1 = 1
         then (case getNextResetTime qm ?w2 of
                 (resetTime, w3) \<Rightarrow>
                   (case time_Until resetTime w3 of
                      (timeUntilReset, w4) \<Rightarrow> redis_Expire ?key timeUntilReset w4))
         else (Inr (), ?w2)) = (r5, w5)"
    by fastforce
  have w5: "r5 = Inr () \<and> kv w5 = kv ?w2 \<and> fault w5 = fault w \<and> calendar w5 = calendar w
            \<and> clock w5 = clock w"
  proof (cases "?c + 1 = 1")
    case True
    let ?w4 = "?w2\<lparr>ticks := Suc (Suc (Suc (ticks w)))\<rparr>"
    have "\<not> fault ?w4 (sent ?w4)" "kv ?w4 ?key \<noteq> None"
      using assms(2) by simp_all
    from redis_Expire_ok [OF this] e True show ?thesis
      by (subst (asm) getNextResetTime_eq) (auto simp: time_Until_eq)
  next
    case False
    with e show ?thesis by auto
  qed
  from GetQuotaInfo_used [OF assms(1), of "identifier" w5] obtain info w' where
    g: "GetQuotaInfo qm identifier w5 = (Inr info, w')"
       "qi_Used info = counter_read qm identifier w5"
    by blast
  have "counter_read qm identifier w5 = counter_value (kv w5 ?key)"
    by (rule counter_read_later) (use w5 assms(2,4) in simp_all)
  also have "\<dots> = ?c + 1"
    using w5 counter_value_after [OF assms(3)] by simp
  finally have u: "qi_Used info = ?c + 1"
    using g(2) by simp
  have C: "ConsumeQuota qm identifier 1 w =
      (case (if ?c + 1 = 1
             then (case getNextResetTime qm ?w2 of
                     (resetTime, w3) \<Rightarrow>
                       (case time_Until resetTime w3 of
                          (timeUntilReset, w4) \<Rightarrow> redis_Expire ?key timeUntilReset w4))
             else (Inr (), ?w2)) of
         (Inl err, w5) \<Rightarrow> (Inl (Errorf ''failed to set quota expiration'' err), w5)
       | (Inr u, w5) \<Rightarrow>
           (case GetQuotaInfo qm identifier w5 of
              (Inl err, w6) \<Rightarrow> (Inl (Errorf ''failed to get updated quota info'' err), w6)
            | (Inr info, w6) \<Rightarrow> (Inr (Some info), w6)))"
    using assms(1) i
    by (simp add: ConsumeQuota_def GetQuotaPeriodKey_eq Let_def counter_key_def)
  have "ConsumeQuota qm identifier 1 w = (Inr (Some info), w')"
    unfolding C e using w5 g(1) by simp
  then show ?thesis
    using u by (simp add: usage_def)
qed

subsection \<open>The check\<close>

text \<open>C6: for every identifier with quota enabled, \<open>CheckQuota\<close> takes for \<open>used\<close> the counter of
  the current period as it reads it (an absent counter counts as 0) and allows the request if and
  only if \<open>used < limit\<close>, without changing the store. In particular, when the store returns a
  counter at exactly \<open>limit - 1\<close> the check allows, and when it returns a counter that has reached
  \<open>limit\<close> the check denies.\<close>

theorem CheckQuota_decision:
  assumes "qs_Enabled qm"
  shows "quota_allowed (CheckQuota qm identifier w)
           = Inr (counter_read qm identifier w < qs_Limit qm)
       \<and> kv (snd (CheckQuota qm identifier w)) = kv w
       \<and> (\<not> fault w (sent w) \<and> in_int64 (qs_Limit qm - 1)
            \<and> kv w (counter_key qm identifier w) = Some (Dec (qs_Limit qm - 1))
            \<longrightarrow> quota_allowed (CheckQuota qm identifier w) = Inr True)
       \<and> (\<not> fault w (sent w) \<and> in_int64 (qs_Limit qm)
            \<and> kv w (counter_key qm identifier w) = Some (Dec (qs_Limit qm))
            \<longrightarrow> quota_allowed (CheckQuota qm identifier w) = Inr False)"
proof -
  from GetQuotaInfo_used [OF assms, of "identifier" w] obtain info w' where
    g: "GetQuotaInfo qm identifier w = (Inr info, w')"
       "qi_Used info = counter_read qm identifier w" "qi_Limit info = qs_Limit qm" "kv w' = kv w"
    by blast
  have a: "quota_allowed (CheckQuota qm identifier w)
           = Inr (counter_read qm identifier w < qs_Limit qm)"
    using assms g by (auto simp: CheckQuota_def quota_allowed_def)
  have k: "kv (snd (CheckQuota qm identifier w)) = kv w"
    using assms g by (simp add: CheckQuota_def)
  show ?thesis
    using a k by (auto simp: counter_read_def counter_value_def)
qed

text \<open>The theorem at the limit \<open>3/Daily\<close>: no counter, a counter at 2 and a counter at 3.\<close>

lemma sample_label:
  assumes "calendar w = sample_calendar"
  shows "period_label ''Daily'' w i = ''2026-11-03''"
  using assms
  by (simp add: period_label_def sample_calendar_def
      format_date_def Itoa_pad_def pad_left_def utoa.simps digit_char_def
      char_of_def bit_iff_odd_drop_bit)

lemma sample_calendars [simp]:
  "calendar quiet_world = sample_calendar" "calendar (counter_world c) = sample_calendar"
  by (simp_all add: counter_world_def quiet_world_def)

theorem CheckQuota_decision_witness:
  "qs_Enabled daily_quota
   \<and> quota_allowed (CheckQuota daily_quota ''10.0.0.1'' quiet_world) = Inr True
   \<and> quota_allowed (CheckQuota daily_quota ''10.0.0.1'' (counter_world 2)) = Inr True
   \<and> quota_allowed (CheckQuota daily_quota ''10.0.0.1'' (counter_world 3)) = Inr False"
proof -
  have e: "qs_Enabled daily_quota"
    by (simp add: daily_quota_def)
  have r: "counter_read daily_quota ''10.0.0.1'' quiet_world = 0"
     "counter_read daily_quota ''10.0.0.1'' (counter_world 2) = 2"
     "counter_read daily_quota ''10.0.0.1'' (counter_world 3) = 3"
    by (simp_all add: counter_read_def counter_key_def counter_value_def GetQuotaKey_def
        sample_label daily_quota_def in_int64_def minInt64_def maxInt64_def)
       (simp_all add: counter_world_def quiet_world_def in_int64_def minInt64_def maxInt64_def)
  from CheckQuota_decision [OF e, of "''10.0.0.1''" quiet_world]
       CheckQuota_decision [OF e, of "''10.0.0.1''" "counter_world 2"]
       CheckQuota_decision [OF e, of "''10.0.0.1''" "counter_world 3"] e r
  show ?thesis by (simp add: daily_quota_def)
qed

section \<open>The resolver\<close>

text \<open>For the order in which a run of the loop visits the managers, the loop returns the first
  manager of that order whose rule matches, with the identifier it extracted, whatever the store
  holds.\<close>

lemma checkIdentifier_identifier:
  "\<exists>r w'. checkIdentifier req m identifier w = (Inr r, w') \<and> qr_Identifier r = identifier"
  by (auto simp: checkIdentifier_def split: prod.splits sum.splits)

lemma loop_first_match:
  assumes "managers q key = Some m" "extractIdentifier req (config m) \<noteq> []"
  shows "resolved (ServeHTTP_loop q req (key # keys) w) = Some (key, extractIdentifier req (config m))"
  using assms checkIdentifier_identifier [of req m "extractIdentifier req (config m)" w]
  by (auto simp: resolved_def Let_def)

lemma loop_skip:
  assumes "managers q key = Some m" "extractIdentifier req (config m) = []"
  shows "ServeHTTP_loop q req (key # keys) w = ServeHTTP_loop q req keys w"
  using assms by simp

lemma Validate_guest_rule: "Validate guest_rule = Inr ()"
  apply (simp add: Validate_def guest_rule_def guest_limit_def no_quota_def ParseRateLimitPeriod_def)
  apply (simp add: ParseDuration_1m)
  done

lemma Validate_ip_rule: "Validate (ip_rule guest_limit no_quota) = Inr ()"
  apply (simp add: Validate_def ip_rule_def guest_limit_def no_quota_def ParseRateLimitPeriod_def)
  apply (simp add: ParseDuration_1m)
  done

lemma New_two_rules: "fst (New two_rule_config ''quota'' quiet_world) = Inr two_rule_plugin"
  apply (simp add: New_def two_rule_config_def redis_Ping_def exchange_def quiet_world_def
      Validate_guest_rule Validate_ip_rule two_rule_plugin_def)
  apply (simp add: manager_key_def guest_rule_def ip_rule_def)
  done

lemma extract_guest: "extractIdentifier bare_request (config (new_manager guest_rule)) = ''guest''"
  by (simp add: extractIdentifier_def new_manager_def guest_rule_def Header_Get_def bare_request_def)

lemma extract_ip:
  "extractIdentifier bare_request (config (new_manager (ip_rule guest_limit no_quota))) = ''10.0.0.1''"
  by (simp add: extractIdentifier_def new_manager_def ip_rule_def Header_Get_def bare_request_def
      cut_last_colon_def Let_def)

lemma loop_is_first_match:
  "resolved (ServeHTTP_loop q req order w) = first_match q req order"
proof (induction order arbitrary: w)
  case Nil
  show ?case by (simp add: resolved_def)
next
  case (Cons key keys)
  show ?case
  proof (cases "managers q key")
    case None
    then show ?thesis using Cons.IH by simp
  next
    case (Some m)
    show ?thesis
    proof (cases "extractIdentifier req (config m) = []")
      case True
      then show ?thesis using Some Cons.IH by simp
    next
      case False
      from loop_first_match [OF Some False] Some False show ?thesis by simp
    qed
  qed
qed

text \<open>C1 does not hold of the code: the claim has the resolver evaluate the rules in configured
  order, so that the same request and configuration always give the same \<open>(rule, identifier)\<close>.
  \<open>New\<close> puts the managers in a Go map and \<open>ServeHTTP\<close> ranges over the map, in an order that
  the runtime chooses anew for every loop. With the Header rule for \<open>guest\<close> configured first
  and a rule on the client IP second, a request without headers matches both: in one order the
  resolver returns the Header rule with \<open>guest\<close>, in the other the IP rule with \<open>10.0.0.1\<close>.\<close>

theorem resolver_depends_on_map_order:
  "fst (New two_rule_config ''quota'' quiet_world) = Inr two_rule_plugin
   \<and> range_order (managers two_rule_plugin) [''Header:X-User-ID:guest'', ''IP::'']
   \<and> range_order (managers two_rule_plugin) [''IP::'', ''Header:X-User-ID:guest'']
   \<and> resolved (ServeHTTP_loop two_rule_plugin bare_request [''Header:X-User-ID:guest'', ''IP::''] w)
       = Some (''Header:X-User-ID:guest'', ''guest'')
   \<and> resolved (ServeHTTP_loop two_rule_plugin bare_request [''IP::'', ''Header:X-User-ID:guest''] w)
       = Some (''IP::'', ''10.0.0.1'')"
proof -
  have m: "managers two_rule_plugin ''Header:X-User-ID:guest'' = Some (new_manager guest_rule)"
    "managers two_rule_plugin ''IP::'' = Some (new_manager (ip_rule guest_limit no_quota))"
    by (simp_all add: two_rule_plugin_def)
  have r: "range_order (managers two_rule_plugin) [''Header:X-User-ID:guest'', ''IP::'']"
    "range_order (managers two_rule_plugin) [''IP::'', ''Header:X-User-ID:guest'']"
    by (auto simp: range_order_def two_rule_plugin_def)
  from loop_first_match [OF m(1), of bare_request "[''IP::'']" w]
    loop_first_match [OF m(2), of bare_request "[''Header:X-User-ID:guest'']" w]
    New_two_rules r
  show ?thesis
    by (simp add: extract_guest extract_ip)
qed

section \<open>Consuming quota\<close>

text \<open>C10: for every identifier with quota enabled and every amount \<open>n <= 0\<close>, \<open>ConsumeQuota\<close>
  does what it does for the amount 1: the first command it sends is the single \<open>INCRBY\<close> of
  the period counter by 1. When the store executes that command on a counter that is absent or
  an integer, the store holds the counter plus 1 afterwards and nothing else has changed; when
  the store answers every command and the readings of the clock stay in one window, the call
  returns the quota info with the counter plus 1 as usage. \<open>AllowN\<close> with \<open>n <= 0\<close> returns true
  and leaves the world as it is.\<close>

theorem ConsumeQuota_nonpositive_amount:
  assumes "qs_Enabled qm" "n \<le> 0"
  shows "ConsumeQuota qm identifier n w = ConsumeQuota qm identifier 1 w
     \<and> (\<exists>es. trace (snd (ConsumeQuota qm identifier n w)) =
               trace w @ Cmd (INCRBY (counter_key qm identifier w) 1) # es)
     \<and> (\<not> fault w (sent w) \<and> counter_ok (kv w (counter_key qm identifier w)) \<longrightarrow>
          kv (snd (ConsumeQuota qm identifier n w)) =
            (kv w)(counter_key qm identifier w \<mapsto>
                     Dec (counter_value (kv w (counter_key qm identifier w)) + 1)))
     \<and> ((\<forall>i. \<not> fault w i) \<and> counter_ok (kv w (counter_key qm identifier w))
          \<and> (\<forall>i. period_label (qs_Period qm) w i = period_label (qs_Period qm) w (ticks w)) \<longrightarrow>
          usage (ConsumeQuota qm identifier n w)
            = Inr (Some (counter_value (kv w (counter_key qm identifier w)) + 1)))
     \<and> AllowN rl identifier n w = (Inr True, w)"
proof -
  have c: "ConsumeQuota qm identifier n w = ConsumeQuota qm identifier 1 w"
    using assms(2) by (rule ConsumeQuota_coerces)
  have a: "AllowN rl identifier n w = (Inr True, w)"
    using assms(2) by (simp add: AllowN_def)
  show ?thesis
    unfolding c
    using ConsumeQuota_one_trace [OF assms(1), of "identifier" w]
      ConsumeQuota_one_kv [OF assms(1), of w "identifier"]
      ConsumeQuota_one_info [OF assms(1), of w "identifier"] a
    by blast
qed

text \<open>The theorem at the limit \<open>3/Daily\<close> with the amounts 0, on a counter at 2, and \<open>-5\<close>, on
  no counter.\<close>

theorem ConsumeQuota_nonpositive_amount_witness:
  "qs_Enabled daily_quota \<and> (0::int) \<le> 0
   \<and> counter_key daily_quota ''10.0.0.1'' (counter_world 2) = ''quota:10.0.0.1:2026-11-03''
   \<and> kv (counter_world 2) ''quota:10.0.0.1:2026-11-03'' = Some (Dec 2)
   \<and> kv (snd (ConsumeQuota daily_quota ''10.0.0.1'' 0 (counter_world 2)))
        ''quota:10.0.0.1:2026-11-03'' = Some (Dec 3)
   \<and> usage (ConsumeQuota daily_quota ''10.0.0.1'' 0 (counter_world 2)) = Inr (Some 3)
   \<and> usage (ConsumeQuota daily_quota ''10.0.0.1'' (- 5) quiet_world) = Inr (Some 1)
   \<and> AllowN guest_limit ''10.0.0.1'' 0 (counter_world 2) = (Inr True, counter_world 2)"
proof -
  have e: "qs_Enabled daily_quota"
    by (simp add: daily_quota_def)
  have k: "counter_key daily_quota ''10.0.0.1'' (counter_world 2) = ''quota:10.0.0.1:2026-11-03''"
    "counter_key daily_quota ''10.0.0.1'' quiet_world = ''quota:10.0.0.1:2026-11-03''"
    by (simp_all add: counter_key_def GetQuotaKey_def sample_label daily_quota_def)
  have v: "kv (counter_world 2) ''quota:10.0.0.1:2026-11-03'' = Some (Dec 2)"
    "kv quiet_world ''quota:10.0.0.1:2026-11-03'' = None"
    by (simp_all add: counter_world_def quiet_world_def)
  have f: "\<forall>i. \<not> fault (counter_world 2) i" "\<forall>i. \<not> fault quiet_world i"
    by (simp_all add: counter_world_def quiet_world_def)
  have l: "\<forall>i. period_label (qs_Period daily_quota) (counter_world 2) i
               = period_label (qs_Period daily_quota) (counter_world 2) (ticks (counter_world 2))"
    "\<forall>i. period_label (qs_Period daily_quota) quiet_world i
               = period_label (qs_Period daily_quota) quiet_world (ticks quiet_world)"
    by (simp_all add: sample_label daily_quota_def)
  have o: "counter_ok (Some (Dec 2))" "counter_ok None"
    "counter_value (Some (Dec 2)) = 2" "counter_value None = 0"
    by (simp_all add: counter_ok_def counter_value_def in_int64_def minInt64_def maxInt64_def)
  have z: "(0::int) \<le> 0" "(- 5::int) \<le> 0"
    by simp_all
  from ConsumeQuota_nonpositive_amount
         [OF e z(1), of "''10.0.0.1''" "counter_world 2" guest_limit, THEN conjunct2]
    ConsumeQuota_nonpositive_amount
         [OF e z(2), of "''10.0.0.1''" quiet_world guest_limit, THEN conjunct2]
    e k v f l o
  show ?thesis
    by simp
qed


section \<open>The status of a denial\<close>



lemma checkIdentifier_Inr:
  "\<exists>r. fst (checkIdentifier req m identifier w) = Inr r"
  using checkIdentifier_identifier [of req m "identifier" w] by auto











section \<open>The order of the steps of a passing request\<close>

subsection \<open>What each step adds to the trace\<close>




lemma redis_Get_trace: "trace (snd (redis_Get key w)) = trace w @ [Cmd (GET key)]"
  by (simp add: redis_Get_world)

lemma createNewBucket_trace: "trace (snd (createNewBucket rl w)) = trace w"
  by (simp add: createNewBucket_def time_Now_def split: sum.splits)










lemma writeQuotaHeaders_frame:
  "kv (writeQuotaHeaders response w) = kv w"
  by (auto simp: writeQuotaHeaders_def Let_def emit_def split: option.splits)




subsection \<open>A passing request in the sample world\<close>







subsection \<open>The order\<close>




end
